theory Spec2Isabelle
  imports Complex_Main
begin

section \<open>Cross-validation utilities of utils.py\<close>

text \<open>
  The development embeds the fold partitioner, the evaluator, the grid search, the kernel
  cache and the kernel composer of \<^verbatim>\<open>utils.py\<close>.  Sizes and counts (\<open>n\<close>, \<open>k\<close>,
  \<open>subsample\<close>, \<open>folds\<close>, \<open>repeats\<close>) are natural numbers.  Every exception the source can
  raise on such inputs is a value of the type \<open>error\<close>.
\<close>

subsection \<open>Exceptions\<close>

datatype error = AssertionError | ZeroDivisionError | IndexError | ValueError | IOError

text \<open>Python's \<^verbatim>\<open>a % b\<close> on non-negative integers raises when \<open>b\<close> is zero.\<close>

definition py_mod :: "nat \<Rightarrow> nat \<Rightarrow> error + nat" where
  "py_mod a b = (if b = 0 then Inl ZeroDivisionError else Inr (a mod b))"

text \<open>Sequencing: an exception of the first computation ends the whole.\<close>

definition raising :: "error + 'a \<Rightarrow> ('a \<Rightarrow> error + 'b) \<Rightarrow> error + 'b" where
  "raising r f = (case r of Inl e \<Rightarrow> Inl e | Inr v \<Rightarrow> f v)"

subsection \<open>Fold partitioner\<close>

text \<open>The slice \<^verbatim>\<open>xs[a:b]\<close> for non-negative bounds.\<close>

definition slice :: "'a list \<Rightarrow> nat \<Rightarrow> nat \<Rightarrow> 'a list" where
  "slice xs a b = take (b - a) (drop a xs)"

text \<open>Lines 40-41: the default of the optional argument \<^verbatim>\<open>subsample\<close>.\<close>

definition default_subsample :: "nat \<Rightarrow> nat option \<Rightarrow> nat" where
  "default_subsample n subsample = (case subsample of None \<Rightarrow> n | Some s \<Rightarrow> s)"

text \<open>
  \<^verbatim>\<open>np.random.permutation\<close> reads and advances the global generator.  The generator
  state is a value of an arbitrary type \<open>'g\<close>, and the draw is a parameter
  \<open>permutation g n\<close> that returns the drawn list and the next state.
\<close>

definition k_folds_indices ::
  "('g \<Rightarrow> nat \<Rightarrow> nat list \<times> 'g) \<Rightarrow> nat \<Rightarrow> nat \<Rightarrow> nat option \<Rightarrow> 'g
     \<Rightarrow> error + ((nat list \<times> nat list) list \<times> 'g)" where
  "k_folds_indices permutation n k subsample g =
     (let subsample = default_subsample n subsample in
      case py_mod subsample k of
        Inl e \<Rightarrow> Inl e
      | Inr r \<Rightarrow>
          if r \<noteq> 0 then Inl AssertionError
          else
            (let m = subsample div k;
                 drawn = permutation g n;
                 indices = take subsample (fst drawn)
             in Inr (map (\<lambda>i. (take (i * m) indices @ drop ((i + 1) * m) indices,
                               slice indices (i * m) ((i + 1) * m))) [0..<k],
                     snd drawn)))"

text \<open>What \<^verbatim>\<open>np.random.permutation(n)\<close> guarantees: a rearrangement of \<open>range(n)\<close>.\<close>

definition draws_permutations :: "('g \<Rightarrow> nat \<Rightarrow> nat list \<times> 'g) \<Rightarrow> bool" where
  "draws_permutations permutation =
     (\<forall>g n. distinct (fst (permutation g n)) \<and> set (fst (permutation g n)) = {0..<n})"

subsection \<open>Floating-point values and the numpy reductions\<close>

text \<open>
  A float64 is a finite number, an infinity or NaN.  Finite values are real numbers:
  rounding is not part of the model.  Only the operations the source applies are defined.
\<close>

datatype npfloat = Fin real | PInf | NInf | NaN

fun np_add :: "npfloat \<Rightarrow> npfloat \<Rightarrow> npfloat" where
  "np_add (Fin a) (Fin b) = Fin (a + b)"
| "np_add NaN y = NaN"
| "np_add x NaN = NaN"
| "np_add PInf NInf = NaN"
| "np_add NInf PInf = NaN"
| "np_add PInf y = PInf"
| "np_add x PInf = PInf"
| "np_add NInf y = NInf"
| "np_add x NInf = NInf"

fun np_neg :: "npfloat \<Rightarrow> npfloat" where
  "np_neg (Fin a) = Fin (- a)"
| "np_neg PInf = NInf"
| "np_neg NInf = PInf"
| "np_neg NaN = NaN"

definition np_sub :: "npfloat \<Rightarrow> npfloat \<Rightarrow> npfloat" where
  "np_sub x y = np_add x (np_neg y)"

fun np_mul :: "npfloat \<Rightarrow> npfloat \<Rightarrow> npfloat" where
  "np_mul (Fin a) (Fin b) = Fin (a * b)"
| "np_mul NaN y = NaN"
| "np_mul x NaN = NaN"
| "np_mul PInf (Fin b) = (if b = 0 then NaN else if 0 < b then PInf else NInf)"
| "np_mul NInf (Fin b) = (if b = 0 then NaN else if 0 < b then NInf else PInf)"
| "np_mul (Fin a) PInf = (if a = 0 then NaN else if 0 < a then PInf else NInf)"
| "np_mul (Fin a) NInf = (if a = 0 then NaN else if 0 < a then NInf else PInf)"
| "np_mul PInf PInf = PInf"
| "np_mul NInf NInf = PInf"
| "np_mul PInf NInf = NInf"
| "np_mul NInf PInf = NInf"

text \<open>Division of a float by a count (\<open>N\<close>, \<open>folds\<close> or a length): \<open>0/0\<close> is NaN, \<open>x/0\<close> an infinity.\<close>

fun np_div_count :: "npfloat \<Rightarrow> nat \<Rightarrow> npfloat" where
  "np_div_count (Fin a) n =
     (if n = 0 then (if a = 0 then NaN else if 0 < a then PInf else NInf)
      else Fin (a / real n))"
| "np_div_count PInf n = PInf"
| "np_div_count NInf n = NInf"
| "np_div_count NaN n = NaN"

fun np_sqrt :: "npfloat \<Rightarrow> npfloat" where
  "np_sqrt (Fin a) = (if a < 0 then NaN else Fin (sqrt a))"
| "np_sqrt PInf = PInf"
| "np_sqrt NInf = NaN"
| "np_sqrt NaN = NaN"

text \<open>The comparisons \<^verbatim>\<open><=\<close> and \<^verbatim>\<open><\<close>: false whenever an operand is NaN.\<close>

fun np_le :: "npfloat \<Rightarrow> npfloat \<Rightarrow> bool" where
  "np_le NaN y = False"
| "np_le x NaN = False"
| "np_le (Fin a) (Fin b) = (a \<le> b)"
| "np_le NInf y = True"
| "np_le x PInf = True"
| "np_le x NInf = False"
| "np_le PInf y = False"

fun np_lt :: "npfloat \<Rightarrow> npfloat \<Rightarrow> bool" where
  "np_lt NaN y = False"
| "np_lt x NaN = False"
| "np_lt (Fin a) (Fin b) = (a < b)"
| "np_lt PInf y = False"
| "np_lt x NInf = False"
| "np_lt NInf y = True"
| "np_lt x PInf = True"

fun np_sum :: "npfloat list \<Rightarrow> npfloat" where
  "np_sum [] = Fin 0"
| "np_sum (x # xs) = np_add x (np_sum xs)"

text \<open>\<^verbatim>\<open>a.mean()\<close>: the sum divided by the number of elements; NaN for an empty array.\<close>

definition np_mean :: "npfloat list \<Rightarrow> npfloat" where
  "np_mean xs = np_div_count (np_sum xs) (length xs)"

text \<open>
  \<^verbatim>\<open>a.std()\<close> with the default \<^verbatim>\<open>ddof=0\<close>, computed as numpy does: the deviations from
  the mean are squared and summed, the sum is divided by \<open>len(a) - ddof\<close>, and the root is
  taken.
\<close>

definition np_std :: "npfloat list \<Rightarrow> npfloat" where
  "np_std xs =
     (let arrmean = np_div_count (np_sum xs) (length xs);
          x = map (\<lambda>a. np_sub a arrmean) xs;
          x = map (\<lambda>d. np_mul d d) x
      in np_sqrt (np_div_count (np_sum x) (length xs - 0)))"

text \<open>\<^verbatim>\<open>b.sum()\<close> and \<^verbatim>\<open>b.mean()\<close> of a boolean array.\<close>

definition count_true :: "bool list \<Rightarrow> nat" where
  "count_true bs = length (filter (\<lambda>b. b) bs)"

definition bool_mean :: "bool list \<Rightarrow> npfloat" where
  "bool_mean bs = np_div_count (Fin (real (count_true bs))) (length bs)"

text \<open>
  \<^verbatim>\<open>np.argmax\<close> of a one-dimensional float array: the first position of the greatest
  element, a NaN counting as greatest; the scan replaces the current best by every
  element that is not \<^verbatim>\<open><=\<close> it and stops at a NaN.  An empty array raises ValueError.
\<close>

fun argmax_scan :: "npfloat list \<Rightarrow> nat \<Rightarrow> nat \<Rightarrow> npfloat \<Rightarrow> nat" where
  "argmax_scan [] i max_ind mp = max_ind"
| "argmax_scan (x # xs) i max_ind mp =
     (if mp = NaN then max_ind
      else if \<not> np_le x mp then argmax_scan xs (i + 1) i x
      else argmax_scan xs (i + 1) max_ind mp)"

definition np_argmax :: "npfloat list \<Rightarrow> error + nat" where
  "np_argmax xs = (case xs of [] \<Rightarrow> Inl ValueError | x # rest \<Rightarrow> Inr (argmax_scan rest 1 0 x))"

subsection \<open>Array indexing\<close>

text \<open>
  A kernel matrix is a two-dimensional array, given as the list of its rows (all of one
  length).  \<^verbatim>\<open>K[np.ix_(rows, cols)]\<close> and \<^verbatim>\<open>Y[inds]\<close> raise IndexError on an index out
  of bounds.
\<close>

definition np_ix :: "'a list list \<Rightarrow> nat list \<Rightarrow> nat list \<Rightarrow> error + 'a list list" where
  "np_ix K rows cols =
     (if (\<forall>r\<in>set rows. r < length K) \<and> (\<forall>row\<in>set K. \<forall>c\<in>set cols. c < length row)
      then Inr (map (\<lambda>r. map (\<lambda>c. K ! r ! c) cols) rows)
      else Inl IndexError)"

definition take_inds :: "'a list \<Rightarrow> nat list \<Rightarrow> error + 'a list" where
  "take_inds Y inds =
     (if \<forall>i\<in>set inds. i < length Y then Inr (map (\<lambda>i. Y ! i) inds) else Inl IndexError)"

text \<open>
  \<^verbatim>\<open>a == b\<close> on one-dimensional arrays: element by element, an array of length one being
  broadcast against the other; other shapes do not match.
\<close>

definition np_eq :: "'a list \<Rightarrow> 'a list \<Rightarrow> error + bool list" where
  "np_eq xs ys =
     (if length xs = length ys then Inr (map (\<lambda>(x, y). x = y) (zip xs ys))
      else if length xs = 1 then Inr (map (\<lambda>y. hd xs = y) ys)
      else if length ys = 1 then Inr (map (\<lambda>x. x = hd ys) xs)
      else Inl ValueError)"

text \<open>\<^verbatim>\<open>params[i]\<close> on a Python list.\<close>

definition list_get :: "'a list \<Rightarrow> nat \<Rightarrow> error + 'a" where
  "list_get xs i = (if i < length xs then Inr (xs ! i) else Inl IndexError)"

subsection \<open>Evaluator\<close>

text \<open>
  A classifier is an object with a state of type \<open>'m\<close>: \<open>fit\<close> replaces the state,
  \<open>predict\<close> reads it and returns one label per row of its argument.  Both are parameters
  and are taken not to raise.

  One iteration of the loop over the folds (lines 72-78), on the classifier and the two
  running scores.
\<close>

definition cv_fold ::
  "('m \<Rightarrow> 'a list list \<Rightarrow> bool list \<Rightarrow> 'm) \<Rightarrow> ('m \<Rightarrow> 'a list list \<Rightarrow> bool list)
     \<Rightarrow> 'a list list \<Rightarrow> bool list \<Rightarrow> 'm \<times> nat \<times> npfloat \<Rightarrow> nat list \<times> nat list
     \<Rightarrow> error + ('m \<times> nat \<times> npfloat)" where
  "cv_fold fit predict K Y acc pair =
     (let classifier = fst acc; valid_score = fst (snd acc); train_score = snd (snd acc);
          train_inds = fst pair; valid_inds = snd pair in
      raising (np_ix K train_inds train_inds) (\<lambda>K_tt.
      raising (take_inds Y train_inds) (\<lambda>Y_t.
      let classifier = fit classifier K_tt Y_t in
      raising (np_ix K valid_inds train_inds) (\<lambda>K_vt.
      raising (take_inds Y valid_inds) (\<lambda>Y_v.
      raising (np_eq (predict classifier K_vt) Y_v) (\<lambda>valid_hits.
      let valid_score = valid_score + count_true valid_hits in
      raising (np_ix K train_inds train_inds) (\<lambda>K_tt.
      raising (take_inds Y train_inds) (\<lambda>Y_t.
      raising (np_eq (predict classifier K_tt) Y_t) (\<lambda>train_hits.
      Inr (classifier, valid_score, np_add train_score (bool_mean train_hits)))))))))))"

fun cv_folds ::
  "('m \<Rightarrow> 'a list list \<Rightarrow> bool list \<Rightarrow> 'm) \<Rightarrow> ('m \<Rightarrow> 'a list list \<Rightarrow> bool list)
     \<Rightarrow> 'a list list \<Rightarrow> bool list \<Rightarrow> 'm \<times> nat \<times> npfloat \<Rightarrow> (nat list \<times> nat list) list
     \<Rightarrow> error + ('m \<times> nat \<times> npfloat)" where
  "cv_folds fit predict K Y acc [] = Inr acc"
| "cv_folds fit predict K Y acc (pair # rest) =
     (case cv_fold fit predict K Y acc pair of
        Inl e \<Rightarrow> Inl e
      | Inr acc \<Rightarrow> cv_folds fit predict K Y acc rest)"

text \<open>
  The loop over the repeats (lines 69-81): each repeat draws a partition, runs the folds
  from scores 0 and appends the two normalised scores.  At least one fold has run when
  the division by \<open>N\<close> is reached, so the validation score is a numpy integer there and
  the division follows numpy.
\<close>

fun cv_repeats ::
  "('g \<Rightarrow> nat \<Rightarrow> nat list \<times> 'g) \<Rightarrow> ('m \<Rightarrow> 'a list list \<Rightarrow> bool list \<Rightarrow> 'm)
     \<Rightarrow> ('m \<Rightarrow> 'a list list \<Rightarrow> bool list) \<Rightarrow> 'a list list \<Rightarrow> bool list \<Rightarrow> nat \<Rightarrow> nat
     \<Rightarrow> 'm \<Rightarrow> npfloat list \<times> npfloat list \<Rightarrow> 'g
     \<Rightarrow> error + ((npfloat list \<times> npfloat list) \<times> 'g)" where
  "cv_repeats permutation fit predict K Y folds 0 classifier scores g = Inr (scores, g)"
| "cv_repeats permutation fit predict K Y folds (Suc repeats) classifier scores g =
     (case k_folds_indices permutation (length K) folds None g of
        Inl e \<Rightarrow> Inl e
      | Inr (pairs, g) \<Rightarrow>
          (case cv_folds fit predict K Y (classifier, 0, Fin 0) pairs of
             Inl e \<Rightarrow> Inl e
           | Inr (classifier, valid_score, train_score) \<Rightarrow>
               cv_repeats permutation fit predict K Y folds repeats classifier
                 (fst scores @ [np_div_count (Fin (real valid_score)) (length K)],
                  snd scores @ [np_div_count train_score folds]) g))"

type_synonym scores = "npfloat \<times> npfloat \<times> npfloat \<times> npfloat"

definition evaluate ::
  "('g \<Rightarrow> nat \<Rightarrow> nat list \<times> 'g) \<Rightarrow> ('m \<Rightarrow> 'a list list \<Rightarrow> bool list \<Rightarrow> 'm)
     \<Rightarrow> ('m \<Rightarrow> 'a list list \<Rightarrow> bool list) \<Rightarrow> 'm \<Rightarrow> 'a list list \<Rightarrow> bool list \<Rightarrow> nat \<Rightarrow> nat
     \<Rightarrow> 'g \<Rightarrow> error + (scores \<times> 'g)" where
  "evaluate permutation fit predict classifier K Y folds repeats g =
     (case cv_repeats permutation fit predict K Y folds repeats classifier ([], []) g of
        Inl e \<Rightarrow> Inl e
      | Inr ((valid_scores, train_scores), g) \<Rightarrow>
          Inr ((np_mean valid_scores, np_std valid_scores,
                np_mean train_scores, np_std train_scores), g))"

abbreviation valid_mean :: "scores \<Rightarrow> npfloat" where
  "valid_mean r \<equiv> fst r"

abbreviation valid_std :: "scores \<Rightarrow> npfloat" where
  "valid_std r \<equiv> fst (snd r)"

abbreviation train_mean :: "scores \<Rightarrow> npfloat" where
  "train_mean r \<equiv> fst (snd (snd r))"

abbreviation train_std :: "scores \<Rightarrow> npfloat" where
  "train_std r \<equiv> snd (snd (snd r))"

subsection \<open>The evaluator's scores as the specification words them\<close>

text \<open>
  The block of \<open>K\<close> with the given rows and columns, and the labels at the given indices,
  for indices within bounds.
\<close>

definition sub_matrix :: "'a list list \<Rightarrow> nat list \<Rightarrow> nat list \<Rightarrow> 'a list list" where
  "sub_matrix K rows cols = map (\<lambda>r. map (\<lambda>c. K ! r ! c) cols) rows"

definition labels_at :: "bool list \<Rightarrow> nat list \<Rightarrow> bool list" where
  "labels_at Y inds = map (\<lambda>i. Y ! i) inds"

text \<open>The classifier fitted on the training block of one fold.\<close>

definition fitted ::
  "('m \<Rightarrow> 'a list list \<Rightarrow> bool list \<Rightarrow> 'm) \<Rightarrow> 'a list list \<Rightarrow> bool list \<Rightarrow> 'm
     \<Rightarrow> nat list \<times> nat list \<Rightarrow> 'm" where
  "fitted fit K Y classifier pair =
     fit classifier (sub_matrix K (fst pair) (fst pair)) (labels_at Y (fst pair))"

text \<open>The classifiers after the fit of each fold, in the order of the folds.\<close>

fun fitted_per_fold ::
  "('m \<Rightarrow> 'a list list \<Rightarrow> bool list \<Rightarrow> 'm) \<Rightarrow> 'a list list \<Rightarrow> bool list \<Rightarrow> 'm
     \<Rightarrow> (nat list \<times> nat list) list \<Rightarrow> 'm list" where
  "fitted_per_fold fit K Y classifier [] = []"
| "fitted_per_fold fit K Y classifier (pair # rest) =
     fitted fit K Y classifier pair
       # fitted_per_fold fit K Y (fitted fit K Y classifier pair) rest"

text \<open>
  The number of correct predictions on the validation block of a fold, and the accuracy on
  its training block, for the classifier fitted on that fold.
\<close>

definition correct_predictions ::
  "('m \<Rightarrow> 'a list list \<Rightarrow> bool list) \<Rightarrow> 'a list list \<Rightarrow> bool list \<Rightarrow> 'm
     \<Rightarrow> nat list \<times> nat list \<Rightarrow> nat" where
  "correct_predictions predict K Y classifier pair =
     count_true (map (\<lambda>(predicted, label). predicted = label)
       (zip (predict classifier (sub_matrix K (snd pair) (fst pair))) (labels_at Y (snd pair))))"

definition train_accuracy ::
  "('m \<Rightarrow> 'a list list \<Rightarrow> bool list) \<Rightarrow> 'a list list \<Rightarrow> bool list \<Rightarrow> 'm
     \<Rightarrow> nat list \<times> nat list \<Rightarrow> npfloat" where
  "train_accuracy predict K Y classifier pair =
     bool_mean (map (\<lambda>(predicted, label). predicted = label)
       (zip (predict classifier (sub_matrix K (fst pair) (fst pair))) (labels_at Y (fst pair))))"

text \<open>
  The validation score of a repeat: the sum over the folds of the correct-prediction
  counts, divided by \<open>N\<close>.  The train score of a repeat: the arithmetic mean over the folds
  of the per-fold train accuracies.
\<close>

definition spec_valid_score ::
  "('m \<Rightarrow> 'a list list \<Rightarrow> bool list \<Rightarrow> 'm) \<Rightarrow> ('m \<Rightarrow> 'a list list \<Rightarrow> bool list)
     \<Rightarrow> 'a list list \<Rightarrow> bool list \<Rightarrow> 'm \<Rightarrow> (nat list \<times> nat list) list \<Rightarrow> npfloat" where
  "spec_valid_score fit predict K Y classifier pairs =
     np_div_count
       (Fin (real (sum_list (map (\<lambda>(c, pair). correct_predictions predict K Y c pair)
          (zip (fitted_per_fold fit K Y classifier pairs) pairs)))))
       (length K)"

definition spec_train_score ::
  "('m \<Rightarrow> 'a list list \<Rightarrow> bool list \<Rightarrow> 'm) \<Rightarrow> ('m \<Rightarrow> 'a list list \<Rightarrow> bool list)
     \<Rightarrow> 'a list list \<Rightarrow> bool list \<Rightarrow> 'm \<Rightarrow> (nat list \<times> nat list) list \<Rightarrow> npfloat" where
  "spec_train_score fit predict K Y classifier pairs =
     np_mean (map (\<lambda>(c, pair). train_accuracy predict K Y c pair)
       (zip (fitted_per_fold fit K Y classifier pairs) pairs))"

text \<open>
  The two scores of every repeat: each repeat draws its own partition, and the classifier
  object and the generator are carried from one repeat to the next.
\<close>

fun spec_repeat_scores ::
  "('g \<Rightarrow> nat \<Rightarrow> nat list \<times> 'g) \<Rightarrow> ('m \<Rightarrow> 'a list list \<Rightarrow> bool list \<Rightarrow> 'm)
     \<Rightarrow> ('m \<Rightarrow> 'a list list \<Rightarrow> bool list) \<Rightarrow> 'a list list \<Rightarrow> bool list \<Rightarrow> nat \<Rightarrow> nat
     \<Rightarrow> 'm \<Rightarrow> 'g \<Rightarrow> (npfloat \<times> npfloat) list" where
  "spec_repeat_scores permutation fit predict K Y folds 0 classifier g = []"
| "spec_repeat_scores permutation fit predict K Y folds (Suc repeats) classifier g =
     (case k_folds_indices permutation (length K) folds None g of
        Inl e \<Rightarrow> []
      | Inr (pairs, g') \<Rightarrow>
          (spec_valid_score fit predict K Y classifier pairs,
           spec_train_score fit predict K Y classifier pairs)
            # spec_repeat_scores permutation fit predict K Y folds repeats
                (last (classifier # fitted_per_fold fit K Y classifier pairs)) g')"

text \<open>
  The population standard deviation: the root of the mean of the squared deviations from
  the mean (divisor \<open>n\<close>, not \<open>n - 1\<close>).
\<close>

definition population_std :: "npfloat list \<Rightarrow> npfloat" where
  "population_std xs =
     np_sqrt (np_mean (map (\<lambda>x. np_mul (np_sub x (np_mean xs)) (np_sub x (np_mean xs))) xs))"

text \<open>A float in the interval from 0 to 1.\<close>

definition in01 :: "npfloat \<Rightarrow> bool" where
  "in01 x = (case x of Fin a \<Rightarrow> 0 \<le> a \<and> a \<le> 1 | PInf \<Rightarrow> False | NInf \<Rightarrow> False | NaN \<Rightarrow> False)"

text \<open>
  What the callers of \<^verbatim>\<open>evaluate\<close> provide: a square kernel, one label per sample, and a
  classifier whose \<open>predict\<close> returns one label per row of its argument.
\<close>

definition square_kernel :: "'a list list \<Rightarrow> bool" where
  "square_kernel K = list_all (\<lambda>row. length row = length K) K"

definition predicts_per_row :: "('m \<Rightarrow> 'a list list \<Rightarrow> bool list) \<Rightarrow> bool" where
  "predicts_per_row predict = (\<forall>classifier M. length (predict classifier M) = length M)"

subsection \<open>Grid search\<close>

text \<open>
  The factory \<^verbatim>\<open>model(**p)\<close> is a function \<open>model\<close> from a configuration to a fresh
  classifier state.  Lines 164-166 evaluate every configuration in turn.
\<close>

fun grid_results ::
  "('g \<Rightarrow> nat \<Rightarrow> nat list \<times> 'g) \<Rightarrow> ('m \<Rightarrow> 'a list list \<Rightarrow> bool list \<Rightarrow> 'm)
     \<Rightarrow> ('m \<Rightarrow> 'a list list \<Rightarrow> bool list) \<Rightarrow> ('p \<Rightarrow> 'm) \<Rightarrow> 'p list \<Rightarrow> 'a list list
     \<Rightarrow> bool list \<Rightarrow> nat \<Rightarrow> nat \<Rightarrow> 'g \<Rightarrow> error + (scores list \<times> 'g)" where
  "grid_results permutation fit predict model [] K Y folds repeats g = Inr ([], g)"
| "grid_results permutation fit predict model (p # params) K Y folds repeats g =
     raising (evaluate permutation fit predict (model p) K Y folds repeats g) (\<lambda>evaluated.
     raising (grid_results permutation fit predict model params K Y folds repeats
                (snd evaluated)) (\<lambda>later.
     Inr (fst evaluated # fst later, snd later)))"

abbreviation selection_score :: "scores \<Rightarrow> npfloat" where
  "selection_score r \<equiv> np_sub (valid_mean r) (valid_std r)"

text \<open>
  Lines 168-173.  With no configuration, \<^verbatim>\<open>results\<close> is a one-dimensional empty array
  and the column index raises IndexError.  With \<^verbatim>\<open>no_perfect\<close>, the boolean mask keeps the
  rows whose train mean is below 1, \<^verbatim>\<open>np.argmax\<close> runs over the kept rows, and its result
  indexes \<^verbatim>\<open>params\<close>.
\<close>

definition grid_select :: "'p list \<Rightarrow> scores list \<Rightarrow> bool \<Rightarrow> error + 'p" where
  "grid_select params results no_perfect =
     (if results = [] then Inl IndexError
      else if no_perfect then
        (let non_perfect = map (\<lambda>r. np_lt (train_mean r) (Fin 1)) results;
             kept = map fst (filter snd (zip results non_perfect))
         in raising (np_argmax (map (\<lambda>r. np_sub (valid_mean r) (valid_std r)) kept))
              (\<lambda>i. list_get params i))
      else
        raising (np_argmax (map (\<lambda>r. np_sub (valid_mean r) (valid_std r)) results))
          (\<lambda>i. list_get params i))"

definition grid_search ::
  "('g \<Rightarrow> nat \<Rightarrow> nat list \<times> 'g) \<Rightarrow> ('m \<Rightarrow> 'a list list \<Rightarrow> bool list \<Rightarrow> 'm)
     \<Rightarrow> ('m \<Rightarrow> 'a list list \<Rightarrow> bool list) \<Rightarrow> ('p \<Rightarrow> 'm) \<Rightarrow> 'p list \<Rightarrow> 'a list list
     \<Rightarrow> bool list \<Rightarrow> nat \<Rightarrow> nat \<Rightarrow> bool \<Rightarrow> 'g \<Rightarrow> error + (('p \<times> scores) \<times> 'g)" where
  "grid_search permutation fit predict model params K Y folds repeats no_perfect g =
     raising (grid_results permutation fit predict model params K Y folds repeats g)
       (\<lambda>searched.
     raising (grid_select params (fst searched) no_perfect) (\<lambda>p.
     raising (evaluate permutation fit predict (model p) K Y 20 repeats (snd searched))
       (\<lambda>final.
     Inr ((p, fst final), snd final))))"

subsection \<open>Kernel cache\<close>

text \<open>
  The world of \<^verbatim>\<open>precomputed_kernels\<close>: the directory \<^verbatim>\<open>kernels\<close> (absent, or a map
  from file names to the unpickled pairs stored there) and the number of tasks handed to
  the executor so far.  Reading the data files is the parameter \<open>load k train numeric\<close>;
  the kernel function \<open>kernel_fn\<close> takes the optional second argument as an option and is
  taken not to raise; the results are collected in submission order.
\<close>

record 'k world =
  kernels_dir :: "(string \<rightharpoonup> 'k list \<times> 'k list) option"
  submitted :: nat

definition n_datasets :: nat where
  "n_datasets = 3"

fun collect :: "(error + 'a) list \<Rightarrow> error + 'a list" where
  "collect [] = Inr []"
| "collect (r # rs) = raising r (\<lambda>x. raising (collect rs) (\<lambda>xs. Inr (x # xs)))"

definition precomputed_kernels ::
  "(nat \<Rightarrow> bool \<Rightarrow> bool \<Rightarrow> error + 'x) \<Rightarrow> ('x \<Rightarrow> 'x option \<Rightarrow> 'k) \<Rightarrow> string \<Rightarrow> bool \<Rightarrow> nat
     \<Rightarrow> 'k world \<Rightarrow> (error + 'k list \<times> 'k list) \<times> 'k world" where
  "precomputed_kernels load kernel_fn name numeric max_workers w =
     (let files = (case kernels_dir w of None \<Rightarrow> Map.empty | Some files \<Rightarrow> files);
          w = w\<lparr>kernels_dir := Some files\<rparr>
      in case files name of
           Some kernels \<Rightarrow> (Inr kernels, w)
         | None \<Rightarrow>
             (case collect (map (\<lambda>k. load k True numeric) [0..<n_datasets]) of
                Inl e \<Rightarrow> (Inl e, w)
              | Inr train_Xs \<Rightarrow>
                  (case collect (map (\<lambda>k. load k False numeric) [0..<n_datasets]) of
                     Inl e \<Rightarrow> (Inl e, w)
                   | Inr test_Xs \<Rightarrow>
                       if max_workers = 0 then (Inl ValueError, w)
                       else
                         (let train_Ks = map (\<lambda>train_X. kernel_fn train_X None) train_Xs;
                              test_Ks = map (\<lambda>(test_X, train_X). kernel_fn test_X (Some train_X))
                                          (zip test_Xs train_Xs);
                              w = w\<lparr>submitted := submitted w + length train_Xs + length test_Xs\<rparr>;
                              kernels = (train_Ks, test_Ks)
                          in (Inr kernels, w\<lparr>kernels_dir := Some (files(name \<mapsto> kernels))\<rparr>)))))"

subsection \<open>Kernel composer\<close>

text \<open>\<^verbatim>\<open>zip(*xss)\<close>: the columns of \<open>xss\<close>, as many as the shortest list has elements.\<close>

definition zip_star :: "'a list list \<Rightarrow> 'a list list" where
  "zip_star xss =
     (case xss of
        [] \<Rightarrow> []
      | xs # rest \<Rightarrow>
          map (\<lambda>i. map (\<lambda>ys. ys ! i) xss)
            [0..<foldr (\<lambda>ys n. min (length ys) n) rest (length xs)])"

text \<open>
  The unpacking \<^verbatim>\<open>train, test = zip(*kernels)\<close> raises ValueError when there is no
  source.  The transform receives the index and the list of the sources' kernels; its
  keyword parameters are part of the function.
\<close>

definition transform_kernels ::
  "('k list \<times> 'k list) list \<Rightarrow> (nat \<Rightarrow> 'k list \<Rightarrow> 'r) \<Rightarrow> error + ('r list \<times> 'r list)" where
  "transform_kernels kernels transform =
     (if kernels = [] then Inl ValueError
      else
        (let train = map fst kernels; test = map snd kernels
         in Inr (map (\<lambda>(i, ks). transform i ks) (enumerate 0 (zip_star train)),
                 map (\<lambda>(i, ks). transform i ks) (enumerate 0 (zip_star test)))))"

text \<open>
  An element-wise sum of the sources' kernels, the transform \<^verbatim>\<open>lambda i, *ks: sum(ks)\<close> on
  matrices of equal shape.
\<close>

definition matrix_add :: "real list list \<Rightarrow> real list list \<Rightarrow> real list list" where
  "matrix_add A B = map (\<lambda>(row_a, row_b). map (\<lambda>(a, b). a + b) (zip row_a row_b)) (zip A B)"

definition sum_transform :: "nat \<Rightarrow> real list list list \<Rightarrow> real list list" where
  "sum_transform i ks = (case ks of [] \<Rightarrow> [] | k # rest \<Rightarrow> foldl matrix_add k rest)"

subsection \<open>A small experiment\<close>

text \<open>
  Concrete inputs on which the functions are run below: twenty samples with alternating
  labels, the kernel that tells whether two samples carry the same label, three
  configurations, and a generator whose \<open>g\<close>-th draw rotates \<open>range(n)\<close> by \<open>g\<close>.  The
  classifier keeps its configuration and the labels it was fitted on; \<open>Nearest\<close> predicts
  from the first training sample, the other two predict a constant.
\<close>

datatype example_config = Nearest | Always_True | Always_False

definition example_Y :: "bool list" where
  "example_Y = map even [0..<20]"

definition example_K :: "bool list list" where
  "example_K = map (\<lambda>i. map (\<lambda>j. example_Y ! i = example_Y ! j) [0..<20]) [0..<20]"

definition example_model :: "example_config \<Rightarrow> example_config \<times> bool list" where
  "example_model p = (p, [])"

definition example_fit ::
  "example_config \<times> bool list \<Rightarrow> bool list list \<Rightarrow> bool list
     \<Rightarrow> example_config \<times> bool list" where
  "example_fit m K Y = (fst m, Y)"

definition example_predict :: "example_config \<times> bool list \<Rightarrow> bool list list \<Rightarrow> bool list" where
  "example_predict m M =
     (case fst m of
        Nearest \<Rightarrow> map (\<lambda>row. case (row, snd m) of (x # _, y # _) \<Rightarrow> x = y | _ \<Rightarrow> True) M
      | Always_True \<Rightarrow> map (\<lambda>row. True) M
      | Always_False \<Rightarrow> map (\<lambda>row. False) M)"

definition example_permutation :: "nat \<Rightarrow> nat \<Rightarrow> nat list \<times> nat" where
  "example_permutation g n = (rotate g [0..<n], Suc g)"

text \<open>A kernel of four samples, a size that 20 does not divide.\<close>

definition small_Y :: "bool list" where
  "small_Y = [True, False, True, False]"

definition small_K :: "bool list list" where
  "small_K = map (\<lambda>i. map (\<lambda>j. small_Y ! i = small_Y ! j) [0..<4]) [0..<4]"

text \<open>Two single-dataset kernel sources.\<close>

definition example_sources :: "(real list list list \<times> real list list list) list" where
  "example_sources =
     [([[[1, 2], [3, 4]]], [[[5, 6]]]), ([[[10, 20], [30, 40]]], [[[50, 60]]])]"

text \<open>Data files and a kernel function for a run of the kernel cache.\<close>

definition example_load :: "nat \<Rightarrow> bool \<Rightarrow> bool \<Rightarrow> error + int list" where
  "example_load k train numeric = (if train then Inr [int k, 1] else Inr [2, int k])"

definition example_kernel :: "int list \<Rightarrow> int list option \<Rightarrow> int list list" where
  "example_kernel X other =
     map (\<lambda>a. map (\<lambda>b. a * b) (case other of None \<Rightarrow> X | Some Z \<Rightarrow> Z)) X"

section \<open>Properties of the fold partitioner\<close>

lemma draws_permutations_length:
  assumes "draws_permutations permutation"
  shows "length (fst (permutation g n)) = n"
proof -
  have "distinct (fst (permutation g n))" and "set (fst (permutation g n)) = {0..<n}"
    using assms by (simp_all add: draws_permutations_def)
  then have "card {0..<n} = length (fst (permutation g n))"
    using distinct_card by metis
  then show ?thesis by simp
qed




lemma block_le:
  assumes "i < (k::nat)"
  shows "(i + 1) * m \<le> k * m"
proof -
  have "i + 1 \<le> k" using assms by simp
  then show ?thesis by (rule mult_le_mono1)
qed




text \<open>
  C3: whenever \<^verbatim>\<open>subsample % k\<close> has a value other than zero, the call ends in the
  assertion error; no fold pair is produced, for any generator state.
\<close>

theorem k_folds_indices_assertion:
  assumes "py_mod (default_subsample n subsample) k = Inr r" and "r \<noteq> 0"
  shows "k_folds_indices permutation n k subsample g = Inl AssertionError"
  using assms by (simp add: k_folds_indices_def)

theorem k_folds_indices_assertion_witness:
  "py_mod (default_subsample 10 (Some 7)) 5 = Inr 2 \<and> (2::nat) \<noteq> 0
   \<and> k_folds_indices (\<lambda>g n. ([0..<n], Suc g)) 10 5 (Some 7) (0::nat) = Inl AssertionError"
proof -
  have h: "py_mod (default_subsample 10 (Some 7)) 5 = Inr 2"
    by (simp add: py_mod_def default_subsample_def)
  have n: "(2::nat) \<noteq> 0" by simp
  show ?thesis
    using h n k_folds_indices_assertion [OF h n] by simp
qed


lemma py_mod_zero:
  assumes "py_mod s k = Inr 0"
  shows "0 < k" and "s = k * (s div k)"
proof -
  show k: "0 < k" using assms by (auto simp: py_mod_def split: if_splits)
  have "s mod k = 0" using assms k by (simp add: py_mod_def)
  then show "s = k * (s div k)" by auto
qed



section \<open>Sequencing of raising computations\<close>

lemma raising_Inr [simp]: "raising (Inr v) f = f v"
  by (simp add: raising_def)

lemma raising_Inl [simp]: "raising (Inl e) f = Inl e"
  by (simp add: raising_def)

lemma raising_eq_Inr: "raising r f = Inr x \<longleftrightarrow> (\<exists>v. r = Inr v \<and> f v = Inr x)"
  by (cases r) simp_all

section \<open>The experiment, run\<close>

lemma example_draws: "draws_permutations example_permutation"
  by (simp add: draws_permutations_def example_permutation_def)

lemma example_repeats_nearest_5:
  "cv_repeats example_permutation example_fit example_predict example_K example_Y 5 2
     (example_model Nearest) ([], []) 0 = Inr (([Fin 1, Fin 1], [Fin 1, Fin 1]), 2)"
  by code_simp

lemma example_repeats_true_5:
  "cv_repeats example_permutation example_fit example_predict example_K example_Y 5 2
     (example_model Always_True) ([], []) 2
   = Inr (([Fin (1 / 2), Fin (1 / 2)], [Fin (1 / 2), Fin (1 / 2)]), 4)"
  by code_simp

lemma example_repeats_nearest_20:
  "cv_repeats example_permutation example_fit example_predict example_K example_Y 20 2
     (example_model Nearest) ([], []) 4 = Inr (([Fin 1, Fin 1], [Fin 1, Fin 1]), 6)"
  by code_simp

lemma np_mean_std_pair [simp]:
  "np_mean [Fin a, Fin a] = Fin a" "np_std [Fin a, Fin a] = Fin 0"
  by (simp_all add: np_mean_def np_std_def np_sub_def)

lemma example_evaluate_nearest_5:
  "evaluate example_permutation example_fit example_predict (example_model Nearest)
     example_K example_Y 5 2 0 = Inr ((Fin 1, Fin 0, Fin 1, Fin 0), 2)"
  unfolding evaluate_def example_repeats_nearest_5 by simp

lemma example_evaluate_true_5:
  "evaluate example_permutation example_fit example_predict (example_model Always_True)
     example_K example_Y 5 2 2 = Inr ((Fin (1 / 2), Fin 0, Fin (1 / 2), Fin 0), 4)"
  unfolding evaluate_def example_repeats_true_5 by simp

lemma example_evaluate_nearest_20:
  "evaluate example_permutation example_fit example_predict (example_model Nearest)
     example_K example_Y 20 2 4 = Inr ((Fin 1, Fin 0, Fin 1, Fin 0), 6)"
  unfolding evaluate_def example_repeats_nearest_20 by simp

lemma example_grid_results:
  "grid_results example_permutation example_fit example_predict example_model
     [Nearest, Always_True] example_K example_Y 5 2 0
   = Inr ([(Fin 1, Fin 0, Fin 1, Fin 0), (Fin (1 / 2), Fin 0, Fin (1 / 2), Fin 0)], 4)"
  by (simp add: example_evaluate_nearest_5 example_evaluate_true_5)

lemma example_grid_select_no_perfect:
  "grid_select [Nearest, Always_True]
     [(Fin 1, Fin 0, Fin 1, Fin 0), (Fin (1 / 2), Fin 0, Fin (1 / 2), Fin 0)] True
   = Inr Nearest"
  by (simp add: grid_select_def np_argmax_def np_sub_def list_get_def)

lemma example_grid_select:
  "grid_select [Nearest, Always_True]
     [(Fin 1, Fin 0, Fin 1, Fin 0), (Fin (1 / 2), Fin 0, Fin (1 / 2), Fin 0)] False
   = Inr Nearest"
  by (simp add: grid_select_def np_argmax_def np_sub_def list_get_def)

text \<open>
  C1: the claim (and the docstring of \<^verbatim>\<open>grid_search\<close>) exclude a configuration with
  train mean 1.0 when \<^verbatim>\<open>no_perfect\<close> is set and another configuration is below 1.0.  On
  the experiment, \<open>Nearest\<close> has train mean 1.0 and \<open>Always_True\<close> has 0.5; the position
  found among the kept rows indexes the unfiltered \<^verbatim>\<open>params\<close>, and \<open>Nearest\<close> is returned.
\<close>

theorem grid_search_no_perfect_selects_perfect:
  "grid_results example_permutation example_fit example_predict example_model
     [Nearest, Always_True] example_K example_Y 5 2 0
   = Inr ([(Fin 1, Fin 0, Fin 1, Fin 0), (Fin (1 / 2), Fin 0, Fin (1 / 2), Fin 0)], 4)
   \<and> grid_search example_permutation example_fit example_predict example_model
       [Nearest, Always_True] example_K example_Y 5 2 True 0
     = Inr ((Nearest, (Fin 1, Fin 0, Fin 1, Fin 0)), 6)"
  unfolding grid_search_def example_grid_results
  by (simp add: example_grid_select_no_perfect example_evaluate_nearest_20)

section \<open>Properties of the grid search\<close>

lemma np_lt_irrefl: "\<not> np_lt x x"
  by (cases x) simp_all

lemma np_scan_replace_lt:
  assumes "\<not> np_le x mp" and "mp \<noteq> NaN" and "\<not> np_lt mp y"
  shows "\<not> np_lt x y"
  using assms by (cases x; cases mp; cases y) simp_all

lemma np_scan_replace_le:
  assumes "\<not> np_le x mp" and "mp \<noteq> NaN" and "\<not> np_lt mp y"
  shows "\<not> np_le x y"
  using assms by (cases x; cases mp; cases y) simp_all

lemma np_scan_keep:
  assumes "np_le x mp"
  shows "\<not> np_lt mp x"
  using assms by (cases x; cases mp) simp_all

lemma np_not_lt_iff:
  assumes "x \<noteq> NaN" and "y \<noteq> NaN"
  shows "\<not> np_lt x y \<longleftrightarrow> np_le y x" and "\<not> np_le x y \<longleftrightarrow> np_lt y x"
  using assms by (cases x; cases y; auto)+

lemma argmax_scan_first_greatest:
  assumes "b < length pre" and "mp = pre ! b"
    and "\<forall>j<length pre. \<not> np_lt mp (pre ! j)"
    and "\<forall>j<b. \<not> np_le mp (pre ! j)"
  shows "argmax_scan xs (length pre) b mp < length (pre @ xs)
     \<and> (\<forall>j<length (pre @ xs).
           \<not> np_lt ((pre @ xs) ! argmax_scan xs (length pre) b mp) ((pre @ xs) ! j))
     \<and> (\<forall>j<argmax_scan xs (length pre) b mp.
           \<not> np_le ((pre @ xs) ! argmax_scan xs (length pre) b mp) ((pre @ xs) ! j))"
  using assms
proof (induction xs arbitrary: pre b mp)
  case Nil
  then show ?case by simp
next
  case (Cons x xs)
  show ?case
  proof (cases "mp = NaN")
    case True
    have best: "(pre @ x # xs) ! b = NaN"
      using Cons.prems True by (simp add: nth_append)
    have "\<forall>j<b. \<not> np_le NaN ((pre @ x # xs) ! j)"
      by simp
    with best True Cons.prems(1) show ?thesis by simp
  next
    case False
    note finite = this
    show ?thesis
    proof (cases "np_le x mp")
      case True
      have 1: "b < length (pre @ [x])" using Cons.prems(1) by simp
      have 2: "mp = (pre @ [x]) ! b" using Cons.prems(1,2) by (simp add: nth_append)
      have 3: "\<forall>j<length (pre @ [x]). \<not> np_lt mp ((pre @ [x]) ! j)"
        using Cons.prems(3) np_scan_keep [OF True]
        by (auto simp: nth_append less_Suc_eq)
      have 4: "\<forall>j<b. \<not> np_le mp ((pre @ [x]) ! j)"
        using Cons.prems(1,4) by (simp add: nth_append)
      have "argmax_scan (x # xs) (length pre) b mp = argmax_scan xs (length (pre @ [x])) b mp"
        using finite True by simp
      with Cons.IH [OF 1 2 3 4] show ?thesis by simp
    next
      case False
      have 1: "length pre < length (pre @ [x])" by simp
      have 2: "x = (pre @ [x]) ! length pre" by simp
      have 3: "\<forall>j<length (pre @ [x]). \<not> np_lt x ((pre @ [x]) ! j)"
        using Cons.prems(3) np_scan_replace_lt [OF False finite] np_lt_irrefl
        by (auto simp: nth_append less_Suc_eq)
      have 4: "\<forall>j<length pre. \<not> np_le x ((pre @ [x]) ! j)"
        using Cons.prems(3) np_scan_replace_le [OF False finite]
        by (auto simp: nth_append)
      have "argmax_scan (x # xs) (length pre) b mp
          = argmax_scan xs (length (pre @ [x])) (length pre) x"
        using finite False by simp
      with Cons.IH [OF 1 2 3 4] show ?thesis by simp
    qed
  qed
qed

lemma np_argmax_first_greatest:
  assumes "np_argmax xs = Inr i"
  shows "i < length xs \<and> (\<forall>j<length xs. \<not> np_lt (xs ! i) (xs ! j))
     \<and> (\<forall>j<i. \<not> np_le (xs ! i) (xs ! j))"
proof (cases xs)
  case Nil
  with assms show ?thesis by (simp add: np_argmax_def)
next
  case (Cons x rest)
  have i: "i = argmax_scan rest (length [x]) 0 x"
    using assms Cons by (simp add: np_argmax_def)
  have "argmax_scan rest (length [x]) 0 x < length ([x] @ rest)
     \<and> (\<forall>j<length ([x] @ rest).
           \<not> np_lt (([x] @ rest) ! argmax_scan rest (length [x]) 0 x) (([x] @ rest) ! j))
     \<and> (\<forall>j<argmax_scan rest (length [x]) 0 x.
           \<not> np_le (([x] @ rest) ! argmax_scan rest (length [x]) 0 x) (([x] @ rest) ! j))"
    by (rule argmax_scan_first_greatest) (simp_all add: np_lt_irrefl)
  then show ?thesis
    unfolding Cons i by simp
qed

lemma grid_results_length:
  assumes "grid_results permutation fit predict model params K Y folds repeats g
     = Inr (results, g')"
  shows "length results = length params"
  using assms
proof (induction params arbitrary: results g)
  case Nil
  then show ?case by simp
next
  case (Cons p params)
  then show ?case
    by (auto simp: raising_eq_Inr)
qed

lemma grid_search_stages:
  assumes "grid_search permutation fit predict model params K Y folds repeats no_perfect g
     = Inr ((p, final), g')"
  shows "\<exists>results g1.
       grid_results permutation fit predict model params K Y folds repeats g = Inr (results, g1)
     \<and> grid_select params results no_perfect = Inr p
     \<and> evaluate permutation fit predict (model p) K Y 20 repeats g1 = Inr (final, g')"
  using assms by (auto simp: grid_search_def raising_eq_Inr)

lemma example_repeats_true_5_first:
  "cv_repeats example_permutation example_fit example_predict example_K example_Y 5 2
     (example_model Always_True) ([], []) 0
   = Inr (([Fin (1 / 2), Fin (1 / 2)], [Fin (1 / 2), Fin (1 / 2)]), 2)"
  by code_simp

lemma example_repeats_false_5:
  "cv_repeats example_permutation example_fit example_predict example_K example_Y 5 2
     (example_model Always_False) ([], []) 2
   = Inr (([Fin (1 / 2), Fin (1 / 2)], [Fin (1 / 2), Fin (1 / 2)]), 4)"
  by code_simp

lemma example_repeats_true_20:
  "cv_repeats example_permutation example_fit example_predict example_K example_Y 20 2
     (example_model Always_True) ([], []) 4
   = Inr (([Fin (1 / 2), Fin (1 / 2)], [Fin (1 / 2), Fin (1 / 2)]), 6)"
  by code_simp

lemma example_evaluate_true_5_first:
  "evaluate example_permutation example_fit example_predict (example_model Always_True)
     example_K example_Y 5 2 0 = Inr ((Fin (1 / 2), Fin 0, Fin (1 / 2), Fin 0), 2)"
  unfolding evaluate_def example_repeats_true_5_first by simp

lemma example_evaluate_false_5:
  "evaluate example_permutation example_fit example_predict (example_model Always_False)
     example_K example_Y 5 2 2 = Inr ((Fin (1 / 2), Fin 0, Fin (1 / 2), Fin 0), 4)"
  unfolding evaluate_def example_repeats_false_5 by simp

lemma example_evaluate_true_20:
  "evaluate example_permutation example_fit example_predict (example_model Always_True)
     example_K example_Y 20 2 4 = Inr ((Fin (1 / 2), Fin 0, Fin (1 / 2), Fin 0), 6)"
  unfolding evaluate_def example_repeats_true_20 by simp

lemma example_grid_results_tie:
  "grid_results example_permutation example_fit example_predict example_model
     [Always_True, Always_False] example_K example_Y 5 2 0
   = Inr ([(Fin (1 / 2), Fin 0, Fin (1 / 2), Fin 0), (Fin (1 / 2), Fin 0, Fin (1 / 2), Fin 0)], 4)"
  by (simp add: example_evaluate_true_5_first example_evaluate_false_5)

lemma example_grid_select_tie:
  "grid_select [Always_True, Always_False]
     [(Fin (1 / 2), Fin 0, Fin (1 / 2), Fin 0), (Fin (1 / 2), Fin 0, Fin (1 / 2), Fin 0)] False
   = Inr Always_True"
  by (simp add: grid_select_def np_argmax_def np_sub_def list_get_def)

lemma example_grid_search_tie:
  "grid_search example_permutation example_fit example_predict example_model
     [Always_True, Always_False] example_K example_Y 5 2 False 0
   = Inr ((Always_True, (Fin (1 / 2), Fin 0, Fin (1 / 2), Fin 0)), 6)"
  unfolding grid_search_def example_grid_results_tie
  by (simp add: example_grid_select_tie example_evaluate_true_20)

lemma example_grid_search:
  "grid_search example_permutation example_fit example_predict example_model
     [Nearest, Always_True] example_K example_Y 5 2 False 0
   = Inr ((Nearest, (Fin 1, Fin 0, Fin 1, Fin 0)), 6)"
  unfolding grid_search_def example_grid_results
  by (simp add: example_grid_select example_evaluate_nearest_20)

text \<open>
  C6: without \<^verbatim>\<open>no_perfect\<close>, the configuration returned stands at a position \<open>i\<close> of
  \<^verbatim>\<open>params\<close> such that no configuration has a greater selection score and the score at \<open>i\<close>
  is not \<^verbatim>\<open><=\<close> the score of any earlier configuration; when no score is NaN this says that
  every score is \<^verbatim>\<open><=\<close> the one at \<open>i\<close> and every earlier score is strictly below it: among
  the configurations that attain the greatest score, the earliest is selected.
\<close>

theorem grid_search_selects_first_greatest:
  assumes results: "grid_results permutation fit predict model params K Y folds repeats g
      = Inr (results, g1)"
    and returned: "grid_search permutation fit predict model params K Y folds repeats False g
      = Inr ((p, final), g')"
  shows "\<exists>i<length params. p = params ! i
     \<and> (\<forall>j<length params.
           \<not> np_lt (selection_score (results ! i)) (selection_score (results ! j)))
     \<and> (\<forall>j<i. \<not> np_le (selection_score (results ! i)) (selection_score (results ! j)))
     \<and> ((\<forall>j<length params. selection_score (results ! j) \<noteq> NaN) \<longrightarrow>
          (\<forall>j<length params.
             np_le (selection_score (results ! j)) (selection_score (results ! i)))
        \<and> (\<forall>j<i. np_lt (selection_score (results ! j)) (selection_score (results ! i))))"
proof -
  have len: "length results = length params"
    using results by (rule grid_results_length)
  obtain results' g1' where
    "grid_results permutation fit predict model params K Y folds repeats g = Inr (results', g1')"
    and "grid_select params results' False = Inr p"
    using grid_search_stages [OF returned] by blast
  with results have select: "grid_select params results False = Inr p" by simp
  then obtain i where
    argmax: "np_argmax (map selection_score results) = Inr i"
    and get: "list_get params i = Inr p"
    by (auto simp: grid_select_def raising_eq_Inr split: if_splits)
  have i: "i < length params" and p: "p = params ! i"
    using get by (auto simp: list_get_def split: if_splits)
  have greatest:
    "\<forall>j<length params.
       \<not> np_lt (selection_score (results ! i)) (selection_score (results ! j))"
    and first: "\<forall>j<i. \<not> np_le (selection_score (results ! i)) (selection_score (results ! j))"
    using np_argmax_first_greatest [OF argmax] i len by auto
  have "(\<forall>j<length params.
           np_le (selection_score (results ! j)) (selection_score (results ! i)))
      \<and> (\<forall>j<i. np_lt (selection_score (results ! j)) (selection_score (results ! i)))"
    if "\<forall>j<length params. selection_score (results ! j) \<noteq> NaN"
    using that greatest first i np_not_lt_iff
    by (metis (no_types, lifting) less_trans)
  with i p greatest first show ?thesis by blast
qed

theorem grid_search_selects_first_greatest_witness:
  "grid_results example_permutation example_fit example_predict example_model
     [Always_True, Always_False] example_K example_Y 5 2 0
   = Inr ([(Fin (1 / 2), Fin 0, Fin (1 / 2), Fin 0), (Fin (1 / 2), Fin 0, Fin (1 / 2), Fin 0)], 4)
   \<and> grid_search example_permutation example_fit example_predict example_model
       [Always_True, Always_False] example_K example_Y 5 2 False 0
     = Inr ((Always_True, (Fin (1 / 2), Fin 0, Fin (1 / 2), Fin 0)), 6)
   \<and> selection_score (Fin (1 / 2), Fin 0, Fin (1 / 2), Fin 0) = Fin (1 / 2)
   \<and> (\<exists>i<length [Always_True, Always_False]. Always_True = [Always_True, Always_False] ! i
       \<and> (\<forall>j<i. \<not> np_le
             (selection_score
               ([(Fin (1 / 2), Fin 0, Fin (1 / 2), Fin 0),
                 (Fin (1 / 2), Fin 0, Fin (1 / 2), Fin 0)] ! i))
             (selection_score
               ([(Fin (1 / 2), Fin 0, Fin (1 / 2), Fin 0),
                 (Fin (1 / 2), Fin 0, Fin (1 / 2), Fin 0)] ! j))))"
proof -
  have score: "selection_score (Fin (1 / 2), Fin 0, Fin (1 / 2), Fin 0) = Fin (1 / 2)"
    by (simp add: np_sub_def)
  have last: "\<exists>i<length [Always_True, Always_False].
      Always_True = [Always_True, Always_False] ! i
       \<and> (\<forall>j<i. \<not> np_le
             (selection_score
               ([(Fin (1 / 2), Fin 0, Fin (1 / 2), Fin 0),
                 (Fin (1 / 2), Fin 0, Fin (1 / 2), Fin 0)] ! i))
             (selection_score
               ([(Fin (1 / 2), Fin 0, Fin (1 / 2), Fin 0),
                 (Fin (1 / 2), Fin 0, Fin (1 / 2), Fin 0)] ! j)))"
    using grid_search_selects_first_greatest
      [OF example_grid_results_tie example_grid_search_tie]
    by blast
  show ?thesis
    by (intro conjI example_grid_results_tie example_grid_search_tie score last)
qed

text \<open>
  C7: whenever \<^verbatim>\<open>grid_search\<close> returns, the second component of its result is what
  \<^verbatim>\<open>evaluate\<close> returns for a fresh model of the selected configuration with 20 folds and the
  same \<^verbatim>\<open>repeats\<close>, run on the generator state left by the selection phase, whatever
  \<^verbatim>\<open>folds\<close> the selection used.
\<close>

theorem grid_search_final_evaluation:
  assumes "grid_search permutation fit predict model params K Y folds repeats no_perfect g
     = Inr ((p, final), g')"
  shows "\<exists>results g1.
       grid_results permutation fit predict model params K Y folds repeats g = Inr (results, g1)
     \<and> grid_select params results no_perfect = Inr p
     \<and> evaluate permutation fit predict (model p) K Y 20 repeats g1 = Inr (final, g')"
  using assms by (auto simp: grid_search_def raising_eq_Inr)

theorem grid_search_final_evaluation_witness:
  "grid_search example_permutation example_fit example_predict example_model
     [Nearest, Always_True] example_K example_Y 5 2 False 0
   = Inr ((Nearest, (Fin 1, Fin 0, Fin 1, Fin 0)), 6)
   \<and> (\<exists>results g1.
       grid_results example_permutation example_fit example_predict example_model
         [Nearest, Always_True] example_K example_Y 5 2 0 = Inr (results, g1)
     \<and> grid_select [Nearest, Always_True] results False = Inr Nearest
     \<and> evaluate example_permutation example_fit example_predict (example_model Nearest)
         example_K example_Y 20 2 g1 = Inr ((Fin 1, Fin 0, Fin 1, Fin 0), 6))"
  by (intro conjI example_grid_search grid_search_final_evaluation [OF example_grid_search])

section \<open>Properties of the kernel composer\<close>

lemma shortest_length:
  "i < foldr (\<lambda>ys n. min (length ys) n) rest m \<longleftrightarrow> i < m \<and> (\<forall>ys\<in>set rest. i < length ys)"
  by (induction rest) auto

lemma zip_star_length:
  assumes "xss \<noteq> []"
  shows "i < length (zip_star xss) \<longleftrightarrow> (\<forall>xs\<in>set xss. i < length xs)"
  using assms by (cases xss) (auto simp: zip_star_def shortest_length)

lemma zip_star_nth:
  assumes "i < length (zip_star xss)"
  shows "zip_star xss ! i = map (\<lambda>xs. xs ! i) xss"
  using assms by (cases xss) (simp_all add: zip_star_def)

lemma enumerate_transform_nth:
  assumes "i < length cols"
  shows "map (\<lambda>(i, ks). transform i ks) (enumerate 0 cols) ! i = transform i (cols ! i)"
  using assms by (simp add: nth_enumerate_eq)


text \<open>
  C9, as it holds: for a non-empty list of sources the call returns; the result has a train
  entry at \<open>i\<close> exactly when every source has an \<open>i\<close>-th train kernel, and that entry is the
  transform applied to \<open>i\<close> and the sources' \<open>i\<close>-th train kernels in the order of the
  sources; the same holds, independently, for the test kernels.  With two single-dataset
  sources and the element-wise sum, the result is the sum of the two train kernels and
  the sum of the two test kernels.
\<close>

theorem transform_kernels_per_dataset:
  assumes "kernels \<noteq> []"
  shows "\<exists>train test. transform_kernels kernels transform = Inr (train, test)
     \<and> (\<forall>i. i < length train \<longleftrightarrow> (\<forall>source\<in>set kernels. i < length (fst source)))
     \<and> (\<forall>i. i < length test \<longleftrightarrow> (\<forall>source\<in>set kernels. i < length (snd source)))
     \<and> (\<forall>i<length train. train ! i = transform i (map (\<lambda>source. fst source ! i) kernels))
     \<and> (\<forall>i<length test. test ! i = transform i (map (\<lambda>source. snd source ! i) kernels))
     \<and> transform_kernels [([A], [B]), ([C], [D])] sum_transform
         = Inr ([matrix_add A C], [matrix_add B D])"
proof -
  define train where
    "train = map (\<lambda>(i, ks). transform i ks) (enumerate 0 (zip_star (map fst kernels)))"
  define test where
    "test = map (\<lambda>(i, ks). transform i ks) (enumerate 0 (zip_star (map snd kernels)))"
  have returned: "transform_kernels kernels transform = Inr (train, test)"
    using assms by (simp add: transform_kernels_def train_def test_def)
  have fst_ne: "map fst kernels \<noteq> []" and snd_ne: "map snd kernels \<noteq> []"
    using assms by simp_all
  have train_len: "i < length train \<longleftrightarrow> (\<forall>source\<in>set kernels. i < length (fst source))" for i
    using zip_star_length [OF fst_ne, of i] by (simp add: train_def)
  have test_len: "i < length test \<longleftrightarrow> (\<forall>source\<in>set kernels. i < length (snd source))" for i
    using zip_star_length [OF snd_ne, of i] by (simp add: test_def)
  have train_nth: "train ! i = transform i (map (\<lambda>source. fst source ! i) kernels)"
    if "i < length train" for i
  proof -
    have i: "i < length (zip_star (map fst kernels))"
      using that by (simp add: train_def)
    show ?thesis
      unfolding train_def enumerate_transform_nth [OF i] zip_star_nth [OF i]
      by (simp add: comp_def)
  qed
  have test_nth: "test ! i = transform i (map (\<lambda>source. snd source ! i) kernels)"
    if "i < length test" for i
  proof -
    have i: "i < length (zip_star (map snd kernels))"
      using that by (simp add: test_def)
    show ?thesis
      unfolding test_def enumerate_transform_nth [OF i] zip_star_nth [OF i]
      by (simp add: comp_def)
  qed
  have scenario: "transform_kernels [([A], [B]), ([C], [D])] sum_transform
      = Inr ([matrix_add A C], [matrix_add B D])"
    by (simp add: transform_kernels_def zip_star_def enumerate_eq_zip sum_transform_def)
  from returned train_len test_len train_nth test_nth scenario show ?thesis
    by blast
qed

theorem transform_kernels_per_dataset_witness:
  "example_sources \<noteq> []
   \<and> transform_kernels example_sources sum_transform
     = Inr ([[[11, 22], [33, 44]]], [[[55, 66]]])
   \<and> (\<exists>train test. transform_kernels example_sources sum_transform = Inr (train, test)
     \<and> (\<forall>i. i < length train \<longleftrightarrow> (\<forall>source\<in>set example_sources. i < length (fst source)))
     \<and> (\<forall>i. i < length test \<longleftrightarrow> (\<forall>source\<in>set example_sources. i < length (snd source)))
     \<and> (\<forall>i<length train.
           train ! i = sum_transform i (map (\<lambda>source. fst source ! i) example_sources))
     \<and> (\<forall>i<length test.
           test ! i = sum_transform i (map (\<lambda>source. snd source ! i) example_sources))
     \<and> transform_kernels [([[[1]]], [[[2]]]), ([[[3]]], [[[4]]])] sum_transform
         = Inr ([matrix_add [[1]] [[3]]], [matrix_add [[2]] [[4]]]))"
proof -
  have ne: "example_sources \<noteq> []"
    by (simp add: example_sources_def)
  have run: "transform_kernels example_sources sum_transform
     = Inr ([[[11, 22], [33, 44]]], [[[55, 66]]])"
    by (simp add: example_sources_def transform_kernels_def zip_star_def enumerate_eq_zip
        sum_transform_def matrix_add_def)
  show ?thesis
    by (intro conjI ne run
        transform_kernels_per_dataset [OF ne, where transform = sum_transform
          and A = "[[1]]" and B = "[[2]]" and C = "[[3]]" and D = "[[4]]"])
qed

text \<open>
  The claim as stated also covers the empty list of sources; there the unpacking raises
  ValueError and nothing is produced.
\<close>

theorem transform_kernels_no_source:
  "transform_kernels ([] :: (real list list list \<times> real list list list) list) sum_transform
   = Inl ValueError"
  by (simp add: transform_kernels_def)

section \<open>Properties of the kernel cache\<close>

lemma precomputed_kernels_hit:
  assumes "kernels_dir w = Some files" and "files name = Some stored"
  shows "precomputed_kernels load kernel_fn name numeric max_workers w = (Inr stored, w)"
  using assms by (simp add: precomputed_kernels_def)

lemma precomputed_kernels_stores:
  assumes "precomputed_kernels load kernel_fn name numeric max_workers w = (Inr computed, w1)"
  shows "\<exists>files. kernels_dir w1 = Some files \<and> files name = Some computed"
  using assms
  by (auto simp: precomputed_kernels_def Let_def split: option.splits sum.splits if_splits)

text \<open>
  C8: when the directory holds an entry for the name, the call returns the stored pair and
  leaves the world as it was, for every loader, kernel function and other argument: no
  task is submitted and the result does not depend on the kernel function.  Hence after a
  call that returned, a second call with the same name returns the same pair, whatever
  kernel function it is given, and submits nothing.
\<close>

theorem precomputed_kernels_cached:
  "(kernels_dir w = Some files \<and> files name = Some stored \<longrightarrow>
      precomputed_kernels load kernel_fn name numeric max_workers w = (Inr stored, w))
   \<and> (precomputed_kernels load kernel_fn name numeric max_workers w = (Inr computed, w1) \<longrightarrow>
      precomputed_kernels load2 kernel_fn2 name numeric2 max_workers2 w1 = (Inr computed, w1))"
proof (intro conjI impI)
  assume "kernels_dir w = Some files \<and> files name = Some stored"
  then show "precomputed_kernels load kernel_fn name numeric max_workers w = (Inr stored, w)"
    by (simp add: precomputed_kernels_hit)
next
  assume "precomputed_kernels load kernel_fn name numeric max_workers w = (Inr computed, w1)"
  then obtain files' where "kernels_dir w1 = Some files'" and "files' name = Some computed"
    using precomputed_kernels_stores by blast
  then show "precomputed_kernels load2 kernel_fn2 name numeric2 max_workers2 w1
      = (Inr computed, w1)"
    by (rule precomputed_kernels_hit)
qed

lemma example_first_call:
  "precomputed_kernels example_load example_kernel ''spectrum'' True 6
     \<lparr>kernels_dir = None, submitted = 0\<rparr>
   = (Inr ([[[0, 0], [0, 1]], [[1, 1], [1, 1]], [[4, 2], [2, 1]]],
           [[[0, 2], [0, 0]], [[2, 2], [1, 1]], [[4, 2], [4, 2]]]),
      \<lparr>kernels_dir = Some [''spectrum'' \<mapsto>
           ([[[0, 0], [0, 1]], [[1, 1], [1, 1]], [[4, 2], [2, 1]]],
            [[[0, 2], [0, 0]], [[2, 2], [1, 1]], [[4, 2], [4, 2]]])],
        submitted = 6\<rparr>)"
  by (simp add: precomputed_kernels_def n_datasets_def example_load_def example_kernel_def
      upt_rec raising_def Let_def eval_nat_numeral)


theorem precomputed_kernels_cached_witness:
  "\<exists>ks w1.
     precomputed_kernels example_load example_kernel ''spectrum'' True 6
       \<lparr>kernels_dir = None, submitted = 0\<rparr> = (Inr ks, w1)
   \<and> submitted w1 = 6
   \<and> (\<exists>files. kernels_dir w1 = Some files \<and> files ''spectrum'' = Some ks)
   \<and> precomputed_kernels example_load (\<lambda>X other. []) ''spectrum'' False 1 w1 = (Inr ks, w1)
   \<and> precomputed_kernels example_load example_kernel ''spectrum'' True 6 w1 = (Inr ks, w1)"
proof -
  let ?ks = "([[[0, 0], [0, 1]], [[1, 1], [1, 1]], [[4, 2], [2, 1]]],
              [[[0, 2], [0, 0]], [[2, 2], [1, 1]], [[4, 2], [4, 2 :: int]]])"
  let ?w1 = "\<lparr>kernels_dir = Some [''spectrum'' \<mapsto> ?ks], submitted = 6\<rparr>"
  have entry: "kernels_dir ?w1 = Some [''spectrum'' \<mapsto> ?ks]
      \<and> [''spectrum'' \<mapsto> ?ks] ''spectrum'' = Some ?ks"
    by simp
  have stored: "\<exists>files. kernels_dir ?w1 = Some files \<and> files ''spectrum'' = Some ?ks"
    using entry by blast
  have second:
    "precomputed_kernels example_load (\<lambda>X other. []) ''spectrum'' False 1 ?w1 = (Inr ?ks, ?w1)"
    by (rule precomputed_kernels_cached [THEN conjunct2, THEN mp, OF example_first_call])
  have hit:
    "precomputed_kernels example_load example_kernel ''spectrum'' True 6 ?w1 = (Inr ?ks, ?w1)"
    by (rule precomputed_kernels_cached [THEN conjunct1, THEN mp, OF entry])
  have count: "submitted ?w1 = 6"
    by simp
  from example_first_call count stored second hit show ?thesis
    by blast
qed

section \<open>Properties of the evaluator\<close>

lemma np_add_assoc: "np_add (np_add x y) z = np_add x (np_add y z)"
  by (cases x; cases y; cases z) simp_all

lemma np_add_zero [simp]: "np_add (Fin 0) x = x" "np_add x (Fin 0) = x"
  by (cases x; simp)+

lemma np_ix_in_bounds:
  assumes "square_kernel K" and "set rows \<subseteq> {0..<length K}" and "set cols \<subseteq> {0..<length K}"
  shows "np_ix K rows cols = Inr (sub_matrix K rows cols)"
proof -
  have "\<forall>r\<in>set rows. r < length K"
    using assms(2) by auto
  moreover have "\<forall>row\<in>set K. \<forall>c\<in>set cols. c < length row"
    using assms(1,3) by (auto simp: square_kernel_def list_all_iff)
  ultimately show ?thesis
    by (simp add: np_ix_def sub_matrix_def)
qed

lemma take_inds_in_bounds:
  assumes "set inds \<subseteq> {0..<length Y}"
  shows "take_inds Y inds = Inr (labels_at Y inds)"
proof -
  have "\<forall>i\<in>set inds. i < length Y"
    using assms by auto
  then show ?thesis
    by (simp add: take_inds_def labels_at_def)
qed

lemma np_eq_same_length:
  assumes "length xs = length ys"
  shows "np_eq xs ys = Inr (map (\<lambda>(x, y). x = y) (zip xs ys))"
  using assms by (simp add: np_eq_def)

lemma cv_fold_in_bounds:
  assumes K: "square_kernel K" and Y: "length Y = length K"
    and predict: "predicts_per_row predict"
    and train: "set (fst pair) \<subseteq> {0..<length K}"
    and valid: "set (snd pair) \<subseteq> {0..<length K}"
  shows "cv_fold fit predict K Y (classifier, valid_score, train_score) pair
     = Inr (fitted fit K Y classifier pair,
            valid_score + correct_predictions predict K Y (fitted fit K Y classifier pair) pair,
            np_add train_score
              (train_accuracy predict K Y (fitted fit K Y classifier pair) pair))"
proof -
  have tt: "np_ix K (fst pair) (fst pair) = Inr (sub_matrix K (fst pair) (fst pair))"
    using K train train by (rule np_ix_in_bounds)
  have vt: "np_ix K (snd pair) (fst pair) = Inr (sub_matrix K (snd pair) (fst pair))"
    using K valid train by (rule np_ix_in_bounds)
  have yt: "take_inds Y (fst pair) = Inr (labels_at Y (fst pair))"
    using train Y by (simp add: take_inds_in_bounds)
  have yv: "take_inds Y (snd pair) = Inr (labels_at Y (snd pair))"
    using valid Y by (simp add: take_inds_in_bounds)
  have ev: "np_eq (predict c (sub_matrix K (snd pair) (fst pair))) (labels_at Y (snd pair))
      = Inr (map (\<lambda>(x, y). x = y)
          (zip (predict c (sub_matrix K (snd pair) (fst pair))) (labels_at Y (snd pair))))" for c
    using predict
    by (intro np_eq_same_length) (simp add: predicts_per_row_def sub_matrix_def labels_at_def)
  have et: "np_eq (predict c (sub_matrix K (fst pair) (fst pair))) (labels_at Y (fst pair))
      = Inr (map (\<lambda>(x, y). x = y)
          (zip (predict c (sub_matrix K (fst pair) (fst pair))) (labels_at Y (fst pair))))" for c
    using predict
    by (intro np_eq_same_length) (simp add: predicts_per_row_def sub_matrix_def labels_at_def)
  show ?thesis
    by (simp add: cv_fold_def Let_def tt vt yt yv ev et fitted_def correct_predictions_def
        train_accuracy_def)
qed

lemma cv_folds_in_bounds:
  assumes K: "square_kernel K" and Y: "length Y = length K"
    and predict: "predicts_per_row predict"
    and pairs: "\<forall>pair\<in>set pairs.
       set (fst pair) \<subseteq> {0..<length K} \<and> set (snd pair) \<subseteq> {0..<length K}"
  shows "cv_folds fit predict K Y (classifier, valid_score, train_score) pairs
     = Inr (last (classifier # fitted_per_fold fit K Y classifier pairs),
            valid_score + sum_list (map (\<lambda>(c, pair). correct_predictions predict K Y c pair)
              (zip (fitted_per_fold fit K Y classifier pairs) pairs)),
            np_add train_score (np_sum (map (\<lambda>(c, pair). train_accuracy predict K Y c pair)
              (zip (fitted_per_fold fit K Y classifier pairs) pairs))))"
  using pairs
proof (induction pairs arbitrary: classifier valid_score train_score)
  case Nil
  then show ?case by simp
next
  case (Cons pair rest)
  have step: "cv_fold fit predict K Y (classifier, valid_score, train_score) pair
     = Inr (fitted fit K Y classifier pair,
            valid_score + correct_predictions predict K Y (fitted fit K Y classifier pair) pair,
            np_add train_score
              (train_accuracy predict K Y (fitted fit K Y classifier pair) pair))"
    using K Y predict Cons.prems by (intro cv_fold_in_bounds) simp_all
  have rest: "\<forall>pair\<in>set rest.
       set (fst pair) \<subseteq> {0..<length K} \<and> set (snd pair) \<subseteq> {0..<length K}"
    using Cons.prems by simp
  show ?case
    by (simp add: step Cons.IH [OF rest] np_add_assoc)
qed

lemma k_folds_indices_in_bounds:
  assumes perm: "draws_permutations permutation"
    and returned: "k_folds_indices permutation n k None g = Inr (pairs, g')"
  shows "length pairs = k"
    and "\<forall>pair\<in>set pairs. set (fst pair) \<subseteq> {0..<n} \<and> set (snd pair) \<subseteq> {0..<n}"
proof -
  define indices where "indices = take n (fst (permutation g n))"
  define m where "m = n div k"
  have pairs: "pairs = map (\<lambda>i. (take (i * m) indices @ drop ((i + 1) * m) indices,
      slice indices (i * m) ((i + 1) * m))) [0..<k]"
    using returned
    by (auto simp: k_folds_indices_def default_subsample_def Let_def indices_def m_def
        split: sum.splits if_splits)
  show "length pairs = k"
    by (simp add: pairs)
  have "set (fst (permutation g n)) = {0..<n}"
    using perm by (simp add: draws_permutations_def)
  then have sub: "set indices \<subseteq> {0..<n}"
    using set_take_subset [of n "fst (permutation g n)"] by (simp add: indices_def)
  have "set (take a indices) \<subseteq> {0..<n}" "set (drop b indices) \<subseteq> {0..<n}"
    "set (slice indices a b) \<subseteq> {0..<n}" for a b
    using sub set_take_subset [of a indices] set_drop_subset [of b indices]
      set_take_subset [of "b - a" "drop a indices"] set_drop_subset [of a indices]
    by (auto simp: slice_def)
  then show "\<forall>pair\<in>set pairs. set (fst pair) \<subseteq> {0..<n} \<and> set (snd pair) \<subseteq> {0..<n}"
    by (auto simp: pairs)
qed

lemma k_folds_indices_returns:
  assumes "py_mod n k = Inr 0"
  shows "\<exists>pairs g'. k_folds_indices permutation n k None g = Inr (pairs, g')"
  using assms by (simp add: k_folds_indices_def default_subsample_def Let_def)

lemma np_std_population: "np_std xs = population_std xs"
  by (simp add: np_std_def population_std_def np_mean_def Let_def comp_def)

lemma cv_repeats_scores:
  assumes perm: "draws_permutations permutation"
    and K: "square_kernel K" and Y: "length Y = length K"
    and predict: "predicts_per_row predict"
    and divides: "py_mod (length K) folds = Inr 0"
  shows "\<exists>g'. cv_repeats permutation fit predict K Y folds repeats classifier (vs, ts) g
     = Inr ((vs @ map fst (spec_repeat_scores permutation fit predict K Y folds repeats
                              classifier g),
             ts @ map snd (spec_repeat_scores permutation fit predict K Y folds repeats
                              classifier g)), g')"
proof (induction repeats arbitrary: classifier vs ts g)
  case 0
  show ?case by simp
next
  case (Suc repeats)
  obtain pairs g1 where
    drawn: "k_folds_indices permutation (length K) folds None g = Inr (pairs, g1)"
    using k_folds_indices_returns [OF divides, of permutation g] by blast
  have len: "length pairs = folds"
    and bounds: "\<forall>pair\<in>set pairs.
       set (fst pair) \<subseteq> {0..<length K} \<and> set (snd pair) \<subseteq> {0..<length K}"
    using k_folds_indices_in_bounds [OF perm drawn] by simp_all
  have folds_run: "cv_folds fit predict K Y (classifier, 0, Fin 0) pairs
     = Inr (last (classifier # fitted_per_fold fit K Y classifier pairs),
            0 + sum_list (map (\<lambda>(c, pair). correct_predictions predict K Y c pair)
              (zip (fitted_per_fold fit K Y classifier pairs) pairs)),
            np_add (Fin 0) (np_sum (map (\<lambda>(c, pair). train_accuracy predict K Y c pair)
              (zip (fitted_per_fold fit K Y classifier pairs) pairs))))"
    using K Y predict bounds by (rule cv_folds_in_bounds)
  have fitted_len: "length (fitted_per_fold fit K Y c ps) = length ps" for c ps
    by (induction ps arbitrary: c) simp_all
  have train: "np_div_count (np_sum (map (\<lambda>(c, pair). train_accuracy predict K Y c pair)
              (zip (fitted_per_fold fit K Y classifier pairs) pairs))) folds
      = spec_train_score fit predict K Y classifier pairs"
    by (simp add: spec_train_score_def np_mean_def fitted_len len)
  obtain g' where rest:
    "cv_repeats permutation fit predict K Y folds repeats
       (last (classifier # fitted_per_fold fit K Y classifier pairs))
       (vs @ [spec_valid_score fit predict K Y classifier pairs],
        ts @ [spec_train_score fit predict K Y classifier pairs]) g1
     = Inr (((vs @ [spec_valid_score fit predict K Y classifier pairs])
               @ map fst (spec_repeat_scores permutation fit predict K Y folds repeats
                   (last (classifier # fitted_per_fold fit K Y classifier pairs)) g1),
             (ts @ [spec_train_score fit predict K Y classifier pairs])
               @ map snd (spec_repeat_scores permutation fit predict K Y folds repeats
                   (last (classifier # fitted_per_fold fit K Y classifier pairs)) g1)), g')"
    using Suc.IH by blast
  have "cv_repeats permutation fit predict K Y folds (Suc repeats) classifier (vs, ts) g
     = cv_repeats permutation fit predict K Y folds repeats
       (last (classifier # fitted_per_fold fit K Y classifier pairs))
       (vs @ [spec_valid_score fit predict K Y classifier pairs],
        ts @ [spec_train_score fit predict K Y classifier pairs]) g1"
    by (simp add: drawn folds_run train spec_valid_score_def del: last.simps)
  with rest show ?case
    by (simp add: drawn del: last.simps)
qed


lemma spec_repeat_scores_length:
  assumes "py_mod (length K) folds = Inr 0"
  shows "length (spec_repeat_scores permutation fit predict K Y folds repeats classifier g)
     = repeats"
proof (induction repeats arbitrary: classifier g)
  case 0
  show ?case by simp
next
  case (Suc repeats)
  obtain pairs g1 where
    "k_folds_indices permutation (length K) folds None g = Inr (pairs, g1)"
    using k_folds_indices_returns [OF assms, of permutation g] by blast
  then show ?case
    by (simp add: Suc.IH del: last.simps)
qed

lemma example_inputs:
  "square_kernel example_K" "length example_Y = length example_K"
  "predicts_per_row example_predict" "py_mod (length example_K) 5 = Inr 0"
proof -
  show "square_kernel example_K"
    by (simp add: square_kernel_def example_K_def list_all_iff)
  show "length example_Y = length example_K"
    by (simp add: example_K_def example_Y_def)
  show "predicts_per_row example_predict"
    by (simp add: predicts_per_row_def example_predict_def split: example_config.split)
  show "py_mod (length example_K) 5 = Inr 0"
    by (simp add: example_K_def py_mod_def)
qed

lemma evaluate_refines:
  assumes perm: "draws_permutations permutation"
    and K: "square_kernel K" and Y: "length Y = length K"
    and predict: "predicts_per_row predict"
    and divides: "py_mod (length K) folds = Inr 0"
  shows "length (spec_repeat_scores permutation fit predict K Y folds repeats classifier g)
       = repeats
     \<and> (\<exists>g'. evaluate permutation fit predict classifier K Y folds repeats g
         = Inr ((np_mean (map fst (spec_repeat_scores permutation fit predict K Y folds
                    repeats classifier g)),
                 population_std (map fst (spec_repeat_scores permutation fit predict K Y folds
                    repeats classifier g)),
                 np_mean (map snd (spec_repeat_scores permutation fit predict K Y folds
                    repeats classifier g)),
                 population_std (map snd (spec_repeat_scores permutation fit predict K Y folds
                    repeats classifier g))), g'))"
proof -
  obtain g' where
    "cv_repeats permutation fit predict K Y folds repeats classifier ([], []) g
     = Inr (([] @ map fst (spec_repeat_scores permutation fit predict K Y folds repeats
                              classifier g),
             [] @ map snd (spec_repeat_scores permutation fit predict K Y folds repeats
                              classifier g)), g')"
    using cv_repeats_scores [OF perm K Y predict divides] by blast
  then have "evaluate permutation fit predict classifier K Y folds repeats g
         = Inr ((np_mean (map fst (spec_repeat_scores permutation fit predict K Y folds
                    repeats classifier g)),
                 population_std (map fst (spec_repeat_scores permutation fit predict K Y folds
                    repeats classifier g)),
                 np_mean (map snd (spec_repeat_scores permutation fit predict K Y folds
                    repeats classifier g)),
                 population_std (map snd (spec_repeat_scores permutation fit predict K Y folds
                    repeats classifier g))), g')"
    by (simp add: evaluate_def np_std_population)
  moreover have "length (spec_repeat_scores permutation fit predict K Y folds repeats
      classifier g) = repeats"
    by (rule spec_repeat_scores_length [OF divides])
  ultimately show ?thesis
    by blast
qed

text \<open>
  C4: for a square kernel of size \<open>N\<close>, one label per sample, a classifier that predicts one
  label per row and a fold count with \<^verbatim>\<open>N % folds == 0\<close>, \<^verbatim>\<open>evaluate\<close> returns, and its
  four results are the mean and the population standard deviation, over the \<open>repeats\<close>
  per-repeat scores, of the validation score (the summed correct-prediction counts of the
  folds divided by \<open>N\<close>) and of the train score (the arithmetic mean of the per-fold train
  accuracies).
\<close>

theorem evaluate_scores:
  assumes perm: "draws_permutations permutation"
    and K: "square_kernel K" and Y: "length Y = length K"
    and predict: "predicts_per_row predict"
    and divides: "py_mod (length K) folds = Inr 0"
  shows "length (spec_repeat_scores permutation fit predict K Y folds repeats classifier g)
       = repeats
     \<and> (\<exists>g'. evaluate permutation fit predict classifier K Y folds repeats g
         = Inr ((np_mean (map fst (spec_repeat_scores permutation fit predict K Y folds
                    repeats classifier g)),
                 population_std (map fst (spec_repeat_scores permutation fit predict K Y folds
                    repeats classifier g)),
                 np_mean (map snd (spec_repeat_scores permutation fit predict K Y folds
                    repeats classifier g)),
                 population_std (map snd (spec_repeat_scores permutation fit predict K Y folds
                    repeats classifier g))), g'))"
  using assms by (rule evaluate_refines)

theorem evaluate_scores_witness:
  "draws_permutations example_permutation \<and> square_kernel example_K
   \<and> length example_Y = length example_K \<and> predicts_per_row example_predict
   \<and> py_mod (length example_K) 5 = Inr 0
   \<and> evaluate example_permutation example_fit example_predict (example_model Always_True)
       example_K example_Y 5 2 0 = Inr ((Fin (1 / 2), Fin 0, Fin (1 / 2), Fin 0), 2)
   \<and> length (spec_repeat_scores example_permutation example_fit example_predict example_K
       example_Y 5 2 (example_model Always_True) 0) = 2
   \<and> (\<exists>g'. evaluate example_permutation example_fit example_predict
         (example_model Always_True) example_K example_Y 5 2 0
       = Inr ((np_mean (map fst (spec_repeat_scores example_permutation example_fit
                  example_predict example_K example_Y 5 2 (example_model Always_True) 0)),
               population_std (map fst (spec_repeat_scores example_permutation example_fit
                  example_predict example_K example_Y 5 2 (example_model Always_True) 0)),
               np_mean (map snd (spec_repeat_scores example_permutation example_fit
                  example_predict example_K example_Y 5 2 (example_model Always_True) 0)),
               population_std (map snd (spec_repeat_scores example_permutation example_fit
                  example_predict example_K example_Y 5 2 (example_model Always_True) 0))),
              g'))"
  by (intro conjI example_draws example_inputs example_evaluate_true_5_first
      evaluate_scores [OF example_draws example_inputs, THEN conjunct1]
      evaluate_scores [OF example_draws example_inputs, THEN conjunct2])

section \<open>Bounds on the evaluator's results\<close>

lemma in01_Fin [simp]: "in01 (Fin a) \<longleftrightarrow> 0 \<le> a \<and> a \<le> 1"
  by (simp add: in01_def)

lemma in01_cases:
  assumes "in01 x"
  obtains a where "x = Fin a" and "0 \<le> a" and "a \<le> 1"
  using assms by (cases x) (simp_all add: in01_def)

lemma in01_list:
  assumes "\<forall>x\<in>set xs. in01 x"
  shows "\<exists>rs. xs = map Fin rs \<and> (\<forall>r\<in>set rs. 0 \<le> r \<and> r \<le> 1)"
  using assms
proof (induction xs)
  case Nil
  show ?case by simp
next
  case (Cons x xs)
  then obtain rs where rs: "xs = map Fin rs" "\<forall>r\<in>set rs. 0 \<le> r \<and> r \<le> 1"
    by auto
  from Cons.prems obtain a where a: "x = Fin a" "0 \<le> a" "a \<le> 1"
    by (auto elim: in01_cases)
  have "x # xs = map Fin (a # rs) \<and> (\<forall>r\<in>set (a # rs). 0 \<le> r \<and> r \<le> 1)"
    using rs a by simp
  then show ?case by (rule exI)
qed

lemma np_sum_Fin: "np_sum (map Fin rs) = Fin (sum_list rs)"
  by (induction rs) simp_all

lemma unit_mean:
  fixes rs :: "real list"
  assumes "rs \<noteq> []" and "\<forall>r\<in>set rs. 0 \<le> r \<and> r \<le> 1"
  shows "0 \<le> sum_list rs / real (length rs)" and "sum_list rs / real (length rs) \<le> 1"
proof -
  have lower: "0 \<le> sum_list rs"
    using assms(2) by (simp add: sum_list_nonneg)
  have upper: "sum_list rs \<le> real (length rs)"
    using assms(2) by (induction rs) auto
  have pos: "0 < real (length rs)"
    using assms(1) by simp
  show "0 \<le> sum_list rs / real (length rs)"
    using lower pos by simp
  show "sum_list rs / real (length rs) \<le> 1"
    using upper pos by simp
qed

lemma in01_mean:
  assumes "xs \<noteq> []" and "\<forall>x\<in>set xs. in01 x"
  shows "in01 (np_mean xs)"
proof -
  obtain rs where rs: "xs = map Fin rs" "\<forall>r\<in>set rs. 0 \<le> r \<and> r \<le> 1"
    using in01_list [OF assms(2)] by blast
  have ne: "rs \<noteq> []" using assms(1) rs(1) by auto
  show ?thesis
    using unit_mean [OF ne rs(2)] ne by (simp add: np_mean_def rs(1) np_sum_Fin)
qed

lemma in01_population_std:
  assumes "xs \<noteq> []" and "\<forall>x\<in>set xs. in01 x"
  shows "in01 (population_std xs)"
proof -
  obtain rs where rs: "xs = map Fin rs" "\<forall>r\<in>set rs. 0 \<le> r \<and> r \<le> 1"
    using in01_list [OF assms(2)] by blast
  have ne: "rs \<noteq> []" using assms(1) rs(1) by auto
  define mu where "mu = sum_list rs / real (length rs)"
  have mu: "0 \<le> mu" "mu \<le> 1"
    using unit_mean [OF ne rs(2)] by (simp_all add: mu_def)
  have mean: "np_mean xs = Fin mu"
    using ne by (simp add: np_mean_def rs(1) np_sum_Fin mu_def)
  define ds where "ds = map (\<lambda>r. (r - mu) * (r - mu)) rs"
  have squares: "map (\<lambda>x. np_mul (np_sub x (np_mean xs)) (np_sub x (np_mean xs))) xs
      = map Fin ds"
    unfolding mean by (simp add: rs(1) ds_def np_sub_def comp_def)
  have unit: "\<forall>d\<in>set ds. 0 \<le> d \<and> d \<le> 1"
  proof
    fix d assume "d \<in> set ds"
    then obtain r where r: "r \<in> set rs" and d: "d = (r - mu) * (r - mu)"
      by (auto simp: ds_def)
    have "\<bar>r - mu\<bar> \<le> 1"
      using rs(2) r mu by (auto simp: abs_le_iff)
    then have "(r - mu)\<^sup>2 \<le> 1"
      by (simp add: abs_square_le_1)
    then show "0 \<le> d \<and> d \<le> 1"
      by (simp add: d power2_eq_square)
  qed
  have dne: "ds \<noteq> []" using ne by (simp add: ds_def)
  have var: "0 \<le> sum_list ds / real (length ds)" "sum_list ds / real (length ds) \<le> 1"
    using unit_mean [OF dne unit] by simp_all
  have "population_std xs = Fin (sqrt (sum_list ds / real (length ds)))"
    unfolding population_std_def squares
    using var(1) dne by (simp add: np_mean_def np_sum_Fin)
  then show ?thesis
    using var by simp
qed

lemma example_repeats_true_1:
  "cv_repeats example_permutation example_fit example_predict example_K example_Y 1 2
     (example_model Always_True) ([], []) 0
   = Inr (([Fin (1 / 2), Fin (1 / 2)], [NaN, NaN]), 2)"
  by code_simp

lemma example_evaluate_true_1:
  "evaluate example_permutation example_fit example_predict (example_model Always_True)
     example_K example_Y 1 2 0 = Inr ((Fin (1 / 2), Fin 0, NaN, NaN), 2)"
  unfolding evaluate_def example_repeats_true_1
  by (simp add: np_mean_def np_std_def np_sub_def)

lemma k_folds_indices_sizes:
  assumes perm: "draws_permutations permutation"
    and divides: "py_mod n k = Inr 0"
    and returned: "k_folds_indices permutation n k None g = Inr (pairs, g')"
  shows "\<forall>pair\<in>set pairs. length (snd pair) = n div k \<and> length (fst pair) = n - n div k"
proof -
  define indices where "indices = take n (fst (permutation g n))"
  define m where "m = n div k"
  have pairs: "pairs = map (\<lambda>i. (take (i * m) indices @ drop ((i + 1) * m) indices,
      slice indices (i * m) ((i + 1) * m))) [0..<k]"
    using returned
    by (auto simp: k_folds_indices_def default_subsample_def Let_def indices_def m_def
        split: sum.splits if_splits)
  have km: "n = k * m"
    using py_mod_zero(2) [OF divides] by (simp add: m_def)
  have len: "length indices = k * m"
    using draws_permutations_length [OF perm, of g n] km by (simp add: indices_def)
  have valid: "length (slice indices (i * m) ((i + 1) * m)) = m" if "i < k" for i
    using block_le [OF that, of m] len by (simp add: slice_def)
  have train: "length (take (i * m) indices @ drop ((i + 1) * m) indices) = k * m - m"
    if "i < k" for i
  proof -
    have "(i + 1) * m \<le> k * m" using that by (rule block_le)
    then show ?thesis using len by simp
  qed
  show ?thesis
  proof
    fix pair assume "pair \<in> set pairs"
    then obtain i where i: "i < k"
      and pair: "pair = (take (i * m) indices @ drop ((i + 1) * m) indices,
        slice indices (i * m) ((i + 1) * m))"
      by (auto simp: pairs)
    have "length (snd pair) = m" and "length (fst pair) = k * m - m"
      using valid [OF i] train [OF i] by (simp_all only: pair fst_conv snd_conv)
    moreover have "n div k = m" "n - n div k = k * m - m"
      using km by (simp_all add: m_def)
    ultimately show "length (snd pair) = n div k \<and> length (fst pair) = n - n div k"
      by simp
  qed
qed

lemma count_true_le: "count_true bs \<le> length bs"
  by (simp add: count_true_def)

lemma fitted_per_fold_length: "length (fitted_per_fold fit K Y classifier pairs) = length pairs"
  by (induction pairs arbitrary: classifier) simp_all

lemma correct_predictions_le:
  "correct_predictions predict K Y classifier pair \<le> length (snd pair)"
proof -
  have "correct_predictions predict K Y classifier pair
      \<le> length (zip (predict classifier (sub_matrix K (snd pair) (fst pair)))
           (labels_at Y (snd pair)))"
    unfolding correct_predictions_def by (rule order_trans [OF count_true_le]) simp
  also have "\<dots> \<le> length (snd pair)"
    by (simp add: labels_at_def)
  finally show ?thesis .
qed

lemma correct_predictions_sum_le:
  assumes "\<forall>pair\<in>set pairs. length (snd pair) = m"
  shows "sum_list (map (\<lambda>(c, pair). correct_predictions predict K Y c pair)
           (zip (fitted_per_fold fit K Y classifier pairs) pairs)) \<le> length pairs * m"
  using assms
proof (induction pairs arbitrary: classifier)
  case Nil
  show ?case by simp
next
  case (Cons pair rest)
  have "correct_predictions predict K Y (fitted fit K Y classifier pair) pair \<le> m"
    using correct_predictions_le [of predict K Y _ pair] Cons.prems by simp
  moreover have "sum_list (map (\<lambda>(c, pair). correct_predictions predict K Y c pair)
           (zip (fitted_per_fold fit K Y (fitted fit K Y classifier pair) rest) rest))
      \<le> length rest * m"
    using Cons.prems by (intro Cons.IH) simp
  ultimately show ?case by simp
qed

lemma train_accuracy_in01:
  assumes "predicts_per_row predict" and "fst pair \<noteq> []"
  shows "in01 (train_accuracy predict K Y classifier pair)"
proof -
  define hits where "hits = map (\<lambda>(predicted, label). predicted = label)
       (zip (predict classifier (sub_matrix K (fst pair) (fst pair))) (labels_at Y (fst pair)))"
  have "length hits = length (fst pair)"
    using assms(1) by (simp add: hits_def predicts_per_row_def sub_matrix_def labels_at_def)
  then have pos: "0 < length hits" using assms(2) by simp
  have "real (count_true hits) \<le> real (length hits)"
    using count_true_le [of hits] by simp
  then have "real (count_true hits) / real (length hits) \<le> 1"
    using pos by simp
  then show ?thesis
    using pos by (simp add: train_accuracy_def bool_mean_def hits_def [symmetric])
qed

lemma spec_scores_of_repeat_in01:
  assumes perm: "draws_permutations permutation"
    and predict: "predicts_per_row predict"
    and divides: "py_mod (length K) folds = Inr 0"
    and folds: "2 \<le> folds" and size: "0 < length K"
    and drawn: "k_folds_indices permutation (length K) folds None g = Inr (pairs, g')"
  shows "in01 (spec_valid_score fit predict K Y classifier pairs)"
    and "in01 (spec_train_score fit predict K Y classifier pairs)"
proof -
  define m where "m = length K div folds"
  have km: "length K = folds * m"
    using py_mod_zero(2) [OF divides] by (simp add: m_def)
  have m: "1 \<le> m"
    using km size by (cases m) simp_all
  have len: "length pairs = folds"
    using k_folds_indices_in_bounds(1) [OF perm drawn] .
  have sizes: "\<forall>pair\<in>set pairs. length (snd pair) = m \<and> length (fst pair) = length K - m"
    using k_folds_indices_sizes [OF perm divides drawn] by (simp add: m_def)
  have "m < folds * m"
    using folds m by simp
  then have train_ne: "\<forall>pair\<in>set pairs. fst pair \<noteq> []"
    using sizes km by auto
  have "sum_list (map (\<lambda>(c, pair). correct_predictions predict K Y c pair)
           (zip (fitted_per_fold fit K Y classifier pairs) pairs)) \<le> length pairs * m"
    using sizes by (intro correct_predictions_sum_le) simp
  then have "sum_list (map (\<lambda>(c, pair). correct_predictions predict K Y c pair)
           (zip (fitted_per_fold fit K Y classifier pairs) pairs)) \<le> length K"
    using len km by simp
  then have "real (sum_list (map (\<lambda>(c, pair). correct_predictions predict K Y c pair)
           (zip (fitted_per_fold fit K Y classifier pairs) pairs))) \<le> real (length K)"
    by (rule of_nat_mono)
  then show "in01 (spec_valid_score fit predict K Y classifier pairs)"
    using size by (simp add: spec_valid_score_def)
  have "length (map (\<lambda>(c, pair). train_accuracy predict K Y c pair)
       (zip (fitted_per_fold fit K Y classifier pairs) pairs)) = folds"
    by (simp add: fitted_per_fold_length len)
  then have ne: "map (\<lambda>(c, pair). train_accuracy predict K Y c pair)
       (zip (fitted_per_fold fit K Y classifier pairs) pairs) \<noteq> []"
    using folds by (metis length_0_conv not_numeral_le_zero)
  have all: "\<forall>x\<in>set (map (\<lambda>(c, pair). train_accuracy predict K Y c pair)
       (zip (fitted_per_fold fit K Y classifier pairs) pairs)). in01 x"
    using train_ne predict by (auto dest: set_zip_rightD intro: train_accuracy_in01)
  show "in01 (spec_train_score fit predict K Y classifier pairs)"
    unfolding spec_train_score_def using ne all by (rule in01_mean)
qed

lemma spec_repeat_scores_in01:
  assumes perm: "draws_permutations permutation"
    and predict: "predicts_per_row predict"
    and divides: "py_mod (length K) folds = Inr 0"
    and folds: "2 \<le> folds" and size: "0 < length K"
  shows "\<forall>s\<in>set (spec_repeat_scores permutation fit predict K Y folds repeats classifier g).
     in01 (fst s) \<and> in01 (snd s)"
proof (induction repeats arbitrary: classifier g)
  case 0
  show ?case by simp
next
  case (Suc repeats)
  obtain pairs g1 where
    drawn: "k_folds_indices permutation (length K) folds None g = Inr (pairs, g1)"
    using k_folds_indices_returns [OF divides, of permutation g] by blast
  show ?case
    using spec_scores_of_repeat_in01 [OF perm predict divides folds size drawn] Suc.IH
    by (simp add: drawn del: last.simps)
qed

lemma evaluate_in01:
  assumes perm: "draws_permutations permutation"
    and K: "square_kernel K" and Y: "length Y = length K"
    and predict: "predicts_per_row predict"
    and divides: "py_mod (length K) folds = Inr 0"
    and folds: "2 \<le> folds" and size: "0 < length K" and repeats: "1 \<le> repeats"
  shows "\<exists>r g'. evaluate permutation fit predict classifier K Y folds repeats g = Inr (r, g')
     \<and> in01 (valid_mean r) \<and> in01 (valid_std r) \<and> in01 (train_mean r) \<and> in01 (train_std r)"
proof -
  define sc where
    "sc = spec_repeat_scores permutation fit predict K Y folds repeats classifier g"
  have len: "length sc = repeats"
    and returned: "\<exists>g'. evaluate permutation fit predict classifier K Y folds repeats g
         = Inr ((np_mean (map fst sc), population_std (map fst sc),
                 np_mean (map snd sc), population_std (map snd sc)), g')"
    using evaluate_refines [OF perm K Y predict divides] by (simp_all add: sc_def)
  have all: "\<forall>s\<in>set sc. in01 (fst s) \<and> in01 (snd s)"
    unfolding sc_def using perm predict divides folds size by (rule spec_repeat_scores_in01)
  have ne: "map fst sc \<noteq> []" "map snd sc \<noteq> []"
    using len repeats by auto
  have v: "\<forall>x\<in>set (map fst sc). in01 x" and t: "\<forall>x\<in>set (map snd sc). in01 x"
    using all by auto
  have "in01 (np_mean (map fst sc))" "in01 (population_std (map fst sc))"
    "in01 (np_mean (map snd sc))" "in01 (population_std (map snd sc))"
    using ne v t by (simp_all add: in01_mean in01_population_std)
  with returned show ?thesis
    by auto
qed

text \<open>
  C5, as it holds: for a square kernel with at least one sample, one label per sample, a
  classifier that predicts one label per row, at least two folds with \<^verbatim>\<open>N % folds == 0\<close>
  and at least one repeat, \<^verbatim>\<open>evaluate\<close> returns and its four results lie between 0 and 1;
  in particular both standard deviations are non-negative.
\<close>

theorem evaluate_in_unit_interval:
  assumes "draws_permutations permutation"
    and "square_kernel K" and "length Y = length K"
    and "predicts_per_row predict"
    and "py_mod (length K) folds = Inr 0"
    and "2 \<le> folds" and "0 < length K" and "1 \<le> repeats"
  shows "\<exists>r g'. evaluate permutation fit predict classifier K Y folds repeats g = Inr (r, g')
     \<and> in01 (valid_mean r) \<and> in01 (valid_std r) \<and> in01 (train_mean r) \<and> in01 (train_std r)"
  using assms by (rule evaluate_in01)

theorem evaluate_in_unit_interval_witness:
  "draws_permutations example_permutation \<and> square_kernel example_K
   \<and> length example_Y = length example_K \<and> predicts_per_row example_predict
   \<and> py_mod (length example_K) 5 = Inr 0 \<and> (2::nat) \<le> 5 \<and> 0 < length example_K
   \<and> (1::nat) \<le> 2
   \<and> evaluate example_permutation example_fit example_predict (example_model Always_False)
       example_K example_Y 5 2 2 = Inr ((Fin (1 / 2), Fin 0, Fin (1 / 2), Fin 0), 4)
   \<and> (\<exists>r g'. evaluate example_permutation example_fit example_predict
          (example_model Always_False) example_K example_Y 5 2 2 = Inr (r, g')
       \<and> in01 (valid_mean r) \<and> in01 (valid_std r) \<and> in01 (train_mean r)
       \<and> in01 (train_std r))"
proof -
  have folds: "(2::nat) \<le> 5" and repeats: "(1::nat) \<le> 2"
    by simp_all
  have size: "0 < length example_K"
    by (simp add: example_K_def)
  show ?thesis
    by (intro conjI example_draws example_inputs folds repeats size example_evaluate_false_5
        evaluate_in_unit_interval [OF example_draws example_inputs folds size repeats])
qed

text \<open>
  The claim as stated admits a single fold, which divides every size: the training set of
  the fold is then empty, the train accuracy is the mean of an empty array, and the train
  mean and train deviation returned are NaN.
\<close>

theorem evaluate_single_fold_nan:
  "square_kernel example_K \<and> length example_Y = length example_K
   \<and> predicts_per_row example_predict \<and> py_mod (length example_K) 1 = Inr 0
   \<and> (1::nat) \<le> 2
   \<and> evaluate example_permutation example_fit example_predict (example_model Always_True)
       example_K example_Y 1 2 0 = Inr ((Fin (1 / 2), Fin 0, NaN, NaN), 2)
   \<and> \<not> in01 (train_mean (Fin (1 / 2), Fin 0, NaN, NaN))
   \<and> \<not> in01 (train_std (Fin (1 / 2), Fin 0, NaN, NaN))"
proof -
  have one: "py_mod (length example_K) 1 = Inr 0"
    by (simp add: example_K_def py_mod_def)
  have repeats: "(1::nat) \<le> 2"
    by simp
  have nan: "\<not> in01 (train_mean (Fin (1 / 2), Fin 0, NaN, NaN))"
    "\<not> in01 (train_std (Fin (1 / 2), Fin 0, NaN, NaN))"
    by (simp_all add: in01_def)
  show ?thesis
    by (intro conjI example_inputs(1,2,3) one repeats example_evaluate_true_1 nan)
qed

section \<open>The fold count of the final evaluation\<close>

lemma cv_repeats_needs_divisor:
  assumes "cv_repeats permutation fit predict K Y folds (Suc repeats) classifier scores g
     = Inr x"
  shows "py_mod (length K) folds = Inr 0"
  using assms
  by (auto simp: k_folds_indices_def default_subsample_def Let_def
      split: sum.splits if_splits)

lemma evaluate_needs_divisor:
  assumes "1 \<le> repeats"
    and "evaluate permutation fit predict classifier K Y folds repeats g = Inr x"
  shows "py_mod (length K) folds = Inr 0"
proof -
  obtain r where r: "repeats = Suc r"
    using assms(1) by (cases repeats) simp_all
  obtain y where
    "cv_repeats permutation fit predict K Y folds (Suc r) classifier ([], []) g = Inr y"
    using assms(2) unfolding evaluate_def r by (auto split: sum.splits)
  then show ?thesis
    by (rule cv_repeats_needs_divisor)
qed

lemma evaluate_assertion:
  assumes "1 \<le> repeats" and "py_mod (length K) folds = Inr r" and "r \<noteq> 0"
  shows "evaluate permutation fit predict classifier K Y folds repeats g = Inl AssertionError"
proof -
  obtain n where n: "repeats = Suc n"
    using assms(1) by (cases repeats) simp_all
  have "k_folds_indices permutation (length K) folds None g = Inl AssertionError"
    using assms(2,3) by (simp add: k_folds_indices_def default_subsample_def)
  then show ?thesis
    by (simp add: evaluate_def n)
qed

lemma grid_results_needs_divisor:
  assumes "1 \<le> repeats" and "params \<noteq> []"
    and "grid_results permutation fit predict model params K Y folds repeats g = Inr x"
  shows "py_mod (length K) folds = Inr 0"
proof -
  obtain p rest where params: "params = p # rest"
    using assms(2) by (cases params) simp_all
  obtain y where
    "evaluate permutation fit predict (model p) K Y folds repeats g = Inr y"
    using assms(3) unfolding params by (auto simp: raising_eq_Inr)
  with assms(1) show ?thesis
    by (rule evaluate_needs_divisor)
qed

lemma grid_select_no_results: "grid_select params [] no_perfect = Inl IndexError"
  by (simp add: grid_select_def)

lemma py_mod_20:
  assumes "length K mod 20 \<noteq> 0"
  shows "py_mod (length K) 20 = Inr (length K mod 20)"
  by (simp add: py_mod_def)

lemma py_mod_dvd:
  assumes "py_mod n k = Inr 0"
  shows "0 < k \<and> k dvd n"
  using assms by (auto simp: py_mod_def split: if_splits)

lemma grid_search_needs_divisors:
  assumes repeats: "1 \<le> repeats"
  shows "(length K mod 20 \<noteq> 0
        \<and> grid_results permutation fit predict model params K Y folds repeats g
            = Inr (results, g1)
        \<and> grid_select params results no_perfect = Inr p \<longrightarrow>
          grid_search permutation fit predict model params K Y folds repeats no_perfect g
            = Inl AssertionError)
     \<and> (grid_search permutation fit predict model params K Y folds repeats no_perfect g
           = Inr (returned, g') \<longrightarrow>
          0 < folds \<and> folds dvd length K \<and> 20 dvd length K)"
proof (rule conjI; rule impI)
  assume a: "length K mod 20 \<noteq> 0
        \<and> grid_results permutation fit predict model params K Y folds repeats g
            = Inr (results, g1)
        \<and> grid_select params results no_perfect = Inr p"
  then have size: "length K mod 20 \<noteq> 0"
    by simp
  have "evaluate permutation fit predict (model p) K Y 20 repeats g1
      = Inl AssertionError"
    using repeats py_mod_20 [OF size] size by (rule evaluate_assertion)
  with a show "grid_search permutation fit predict model params K Y folds repeats
      no_perfect g = Inl AssertionError"
    by (simp add: grid_search_def)
next
  assume returns: "grid_search permutation fit predict model params K Y folds repeats
      no_perfect g = Inr (returned, g')"
  obtain p final where "returned = (p, final)"
    by (cases returned)
  with returns have "grid_search permutation fit predict model params K Y folds repeats
      no_perfect g = Inr ((p, final), g')"
    by simp
  then have "\<exists>results g1.
       grid_results permutation fit predict model params K Y folds repeats g = Inr (results, g1)
     \<and> grid_select params results no_perfect = Inr p
     \<and> evaluate permutation fit predict (model p) K Y 20 repeats g1 = Inr (final, g')"
    by (rule grid_search_stages)
  then obtain results g1 where
    searched: "grid_results permutation fit predict model params K Y folds repeats g
      = Inr (results, g1)"
    and selected: "grid_select params results no_perfect = Inr p"
    and final: "evaluate permutation fit predict (model p) K Y 20 repeats g1 = Inr (final, g')"
    by blast
  have "params \<noteq> []"
  proof
    assume "params = []"
    with searched have "results = []" by simp
    with selected show False by (simp add: grid_select_no_results)
  qed
  with repeats searched have "py_mod (length K) folds = Inr 0"
    by (intro grid_results_needs_divisor)
  moreover have "py_mod (length K) 20 = Inr 0"
    using repeats final by (rule evaluate_needs_divisor)
  ultimately show "0 < folds \<and> folds dvd length K \<and> 20 dvd length K"
    using py_mod_dvd by blast
qed

lemma small_repeats_nearest:
  "cv_repeats example_permutation example_fit example_predict small_K small_Y 2 2
     (example_model Nearest) ([], []) 0 = Inr (([Fin 1, Fin 1], [Fin 1, Fin 1]), 2)"
  by code_simp

lemma small_repeats_true:
  "cv_repeats example_permutation example_fit example_predict small_K small_Y 2 2
     (example_model Always_True) ([], []) 2
   = Inr (([Fin (1 / 2), Fin (1 / 2)], [Fin (1 / 2), Fin (1 / 2)]), 4)"
  by code_simp

lemma small_grid_results:
  "grid_results example_permutation example_fit example_predict example_model
     [Nearest, Always_True] small_K small_Y 2 2 0
   = Inr ([(Fin 1, Fin 0, Fin 1, Fin 0), (Fin (1 / 2), Fin 0, Fin (1 / 2), Fin 0)], 4)"
proof -
  have 1: "evaluate example_permutation example_fit example_predict (example_model Nearest)
      small_K small_Y 2 2 0 = Inr ((Fin 1, Fin 0, Fin 1, Fin 0), 2)"
    unfolding evaluate_def small_repeats_nearest by simp
  have 2: "evaluate example_permutation example_fit example_predict
      (example_model Always_True) small_K small_Y 2 2 2
    = Inr ((Fin (1 / 2), Fin 0, Fin (1 / 2), Fin 0), 4)"
    unfolding evaluate_def small_repeats_true by simp
  show ?thesis
    by (simp add: 1 2)
qed

lemma small_size: "length small_K mod 20 \<noteq> 0"
  by (simp add: small_K_def)

text \<open>
  C10, as it holds, for calls with at least one repeat.  When the size of \<open>K\<close> is not a
  multiple of 20 and the selection phase completes (every configuration is evaluated and
  one is selected), the call ends in the assertion failure of \<^verbatim>\<open>k_folds_indices\<close> raised
  by the final evaluation with 20 folds.  And whenever the call returns, the selection
  fold count and 20 both divide the size of \<open>K\<close>.
\<close>

theorem grid_search_needs_multiple_of_20:
  assumes "1 \<le> repeats"
  shows "(length K mod 20 \<noteq> 0
        \<and> grid_results permutation fit predict model params K Y folds repeats g
            = Inr (results, g1)
        \<and> grid_select params results no_perfect = Inr p \<longrightarrow>
          grid_search permutation fit predict model params K Y folds repeats no_perfect g
            = Inl AssertionError)
     \<and> (grid_search permutation fit predict model params K Y folds repeats no_perfect g
           = Inr (returned, g') \<longrightarrow>
          0 < folds \<and> folds dvd length K \<and> 20 dvd length K)"
  using assms by (rule grid_search_needs_divisors)

theorem grid_search_needs_multiple_of_20_witness:
  "(1::nat) \<le> 2
   \<and> length small_K mod 20 \<noteq> 0
   \<and> grid_results example_permutation example_fit example_predict example_model
       [Nearest, Always_True] small_K small_Y 2 2 0
     = Inr ([(Fin 1, Fin 0, Fin 1, Fin 0), (Fin (1 / 2), Fin 0, Fin (1 / 2), Fin 0)], 4)
   \<and> grid_select [Nearest, Always_True]
       [(Fin 1, Fin 0, Fin 1, Fin 0), (Fin (1 / 2), Fin 0, Fin (1 / 2), Fin 0)] False
     = Inr Nearest
   \<and> grid_search example_permutation example_fit example_predict example_model
       [Nearest, Always_True] small_K small_Y 2 2 False 0 = Inl AssertionError
   \<and> grid_search example_permutation example_fit example_predict example_model
       [Nearest, Always_True] example_K example_Y 5 2 False 0
     = Inr ((Nearest, (Fin 1, Fin 0, Fin 1, Fin 0)), 6)
   \<and> (0 < (5::nat) \<and> 5 dvd length example_K \<and> 20 dvd length example_K)"
proof -
  have repeats: "(1::nat) \<le> 2"
    by simp
  have selection: "length small_K mod 20 \<noteq> 0
     \<and> grid_results example_permutation example_fit example_predict example_model
         [Nearest, Always_True] small_K small_Y 2 2 0
       = Inr ([(Fin 1, Fin 0, Fin 1, Fin 0), (Fin (1 / 2), Fin 0, Fin (1 / 2), Fin 0)], 4)
     \<and> grid_select [Nearest, Always_True]
         [(Fin 1, Fin 0, Fin 1, Fin 0), (Fin (1 / 2), Fin 0, Fin (1 / 2), Fin 0)] False
       = Inr Nearest"
    by (intro conjI small_size small_grid_results example_grid_select)
  have fails: "grid_search example_permutation example_fit example_predict example_model
       [Nearest, Always_True] small_K small_Y 2 2 False 0 = Inl AssertionError"
    by (rule grid_search_needs_multiple_of_20
          [OF repeats, THEN conjunct1, THEN mp, OF selection])
  have divisors: "0 < (5::nat) \<and> 5 dvd length example_K \<and> 20 dvd length example_K"
    by (rule grid_search_needs_multiple_of_20
          [OF repeats, THEN conjunct2, THEN mp, OF example_grid_search])
  show ?thesis
    by (intro conjI repeats small_size small_grid_results example_grid_select fails
        example_grid_search divisors)
qed

text \<open>
  The claim as stated speaks of every call.  With an empty list of configurations the
  call ends in an IndexError before any fold is drawn, and with zero repeats no fold is
  ever drawn and the call returns (all four results NaN), on a kernel of four samples.
\<close>

theorem grid_search_without_assertion_failure:
  "length small_K mod 20 \<noteq> 0
   \<and> grid_search example_permutation example_fit example_predict example_model
       [] small_K small_Y 2 2 False 0 = Inl IndexError
   \<and> grid_search example_permutation example_fit example_predict example_model
       [Nearest] small_K small_Y 2 0 False 0 = Inr ((Nearest, (NaN, NaN, NaN, NaN)), 0)"
proof -
  have empty: "grid_search example_permutation example_fit example_predict example_model
       [] small_K small_Y 2 2 False 0 = Inl IndexError"
    by (simp add: grid_search_def grid_select_def)
  have no_repeat: "evaluate example_permutation example_fit example_predict m
       small_K small_Y k 0 g = Inr ((NaN, NaN, NaN, NaN), g)" for m k and g :: nat
    by (simp add: evaluate_def np_mean_def np_std_def)
  have returns: "grid_search example_permutation example_fit example_predict example_model
       [Nearest] small_K small_Y 2 0 False 0 = Inr ((Nearest, (NaN, NaN, NaN, NaN)), 0)"
    by (simp add: grid_search_def no_repeat grid_select_def np_argmax_def np_sub_def
        list_get_def)
  show ?thesis
    by (intro conjI small_size empty returns)
qed

end
